theory Spec2Isabelle
  imports Main "HOL-Library.Char_ord" "HOL-Library.List_Lexorder"
begin

section \<open>JavaScript values\<close>

text \<open>
  The relay is two Express programs: \<^verbatim>\<open>server.js\<close> (OAuth, token kept in a file) and a
  second variant that reads a static admin token from the environment. Both receive JSON
  request bodies and JSON platform responses and probe them with truthiness tests,
  optional chaining and template literals, so the embedding starts with the values of
  JavaScript that JSON can produce, plus \<open>undefined\<close>.

  Strings are byte strings (the UTF-8 encoding of the JavaScript string). Numbers are
  restricted to integers: the programs only test numbers for being non-zero and print them.
\<close>

datatype json =
    JUndef
  | JNull
  | JBool bool
  | JNum int
  | JStr string
  | JArr "json list"
  | JObj "(string \<times> json) list"

datatype js_error = TypeError | RangeError | SyntaxError | SystemError string | FetchError string

text \<open>\<^verbatim>\<open>!v\<close> is \<open>\<not> truthy v\<close>: undefined, null, false, 0 and the empty string are falsy.\<close>

fun truthy :: "json \<Rightarrow> bool" where
  "truthy JUndef = False"
| "truthy JNull = False"
| "truthy (JBool b) = b"
| "truthy (JNum n) = (n \<noteq> 0)"
| "truthy (JStr s) = (s \<noteq> [])"
| "truthy (JArr xs) = True"
| "truthy (JObj kvs) = True"

fun nullish :: "json \<Rightarrow> bool" where
  "nullish JUndef = True"
| "nullish JNull = True"
| "nullish v = False"

text \<open>\<^verbatim>\<open>a || b\<close> on values.\<close>

definition js_or :: "json \<Rightarrow> json \<Rightarrow> json" where
  "js_or a b = (if truthy a then a else b)"

text \<open>
  Reading property \<open>k\<close> of a value that is neither null nor undefined. An object yields its
  own property (the first binding of the key) or undefined; arrays and strings have
  \<open>length\<close>; every other read yields undefined. Inherited properties other than
  \<open>length\<close> are not modelled: none of the keys the programs read is one. The length of a
  string is counted in bytes; the programs only test a length for being non-zero.
\<close>

fun get_prop :: "json \<Rightarrow> string \<Rightarrow> json" where
  "get_prop (JObj kvs) k = (case map_of kvs k of None \<Rightarrow> JUndef | Some v \<Rightarrow> v)"
| "get_prop (JArr xs) k = (if k = ''length'' then JNum (int (length xs)) else JUndef)"
| "get_prop (JStr s) k = (if k = ''length'' then JNum (int (length s)) else JUndef)"
| "get_prop v k = JUndef"

text \<open>\<^verbatim>\<open>v?.k\<close> yields undefined on null and undefined; \<^verbatim>\<open>v.k\<close> throws a TypeError there.\<close>

definition opt_chain :: "json \<Rightarrow> string \<Rightarrow> json" where
  "opt_chain v k = (if nullish v then JUndef else get_prop v k)"

definition dot_prop :: "json \<Rightarrow> string \<Rightarrow> js_error + json" where
  "dot_prop v k = (if nullish v then Inl TypeError else Inr (get_prop v k))"

text \<open>
  \<^verbatim>\<open>v[0]\<close> on a value that is neither null nor undefined. Of a string it is the first
  character, here the first byte; the programs only read a property of it, which is
  undefined for every string.
\<close>

fun index0 :: "json \<Rightarrow> json" where
  "index0 (JArr xs) = (case xs of [] \<Rightarrow> JUndef | x # _ \<Rightarrow> x)"
| "index0 (JStr s) = (case s of [] \<Rightarrow> JUndef | c # _ \<Rightarrow> JStr [c])"
| "index0 (JObj kvs) = (case map_of kvs ''0'' of None \<Rightarrow> JUndef | Some v \<Rightarrow> v)"
| "index0 v = JUndef"

subsection \<open>Conversion to string\<close>

function digits :: "nat \<Rightarrow> string" where
  "digits n = (if n < 10 then [''0123456789'' ! n] else digits (n div 10) @ [''0123456789'' ! (n mod 10)])"
  by pat_completeness auto
termination
  by (relation "measure id") auto

definition show_int :: "int \<Rightarrow> string" where
  "show_int i = (if i < 0 then CHR ''-'' # digits (nat (- i)) else digits (nat i))"

fun join :: "string \<Rightarrow> string list \<Rightarrow> string" where
  "join sep [] = []"
| "join sep [x] = x"
| "join sep (x # y # ys) = x @ sep @ join sep (y # ys)"

text \<open>
  \<^verbatim>\<open>String(v)\<close>, which is also what a template literal \<^verbatim>\<open>${v}\<close> inserts. An array prints its
  elements joined by commas, with null and undefined elements printed as nothing.
\<close>

fun to_string :: "json \<Rightarrow> string"
  and elems_to_string :: "json list \<Rightarrow> string list" where
  "to_string JUndef = ''undefined''"
| "to_string JNull = ''null''"
| "to_string (JBool b) = (if b then ''true'' else ''false'')"
| "to_string (JNum n) = show_int n"
| "to_string (JStr s) = s"
| "to_string (JArr xs) = join '','' (elems_to_string xs)"
| "to_string (JObj kvs) = ''[object Object]''"
| "elems_to_string [] = []"
| "elems_to_string (x # xs) = (if nullish x then [] else to_string x) # elems_to_string xs"

text \<open>
  \<^verbatim>\<open>s.trim()\<close> removes white space and line terminators from both ends. The removable
  characters are listed by their UTF-8 encodings.
\<close>

definition white_space :: "string list" where
  "white_space =
    [[CHR 0x09], [CHR 0x0A], [CHR 0x0B], [CHR 0x0C], [CHR 0x0D], [CHR 0x20],
     [CHR 0xC2, CHR 0xA0], [CHR 0xE1, CHR 0x9A, CHR 0x80],
     [CHR 0xE2, CHR 0x80, CHR 0x80], [CHR 0xE2, CHR 0x80, CHR 0x81],
     [CHR 0xE2, CHR 0x80, CHR 0x82], [CHR 0xE2, CHR 0x80, CHR 0x83],
     [CHR 0xE2, CHR 0x80, CHR 0x84], [CHR 0xE2, CHR 0x80, CHR 0x85],
     [CHR 0xE2, CHR 0x80, CHR 0x86], [CHR 0xE2, CHR 0x80, CHR 0x87],
     [CHR 0xE2, CHR 0x80, CHR 0x88], [CHR 0xE2, CHR 0x80, CHR 0x89],
     [CHR 0xE2, CHR 0x80, CHR 0x8A], [CHR 0xE2, CHR 0x80, CHR 0xA8],
     [CHR 0xE2, CHR 0x80, CHR 0xA9], [CHR 0xE2, CHR 0x80, CHR 0xAF],
     [CHR 0xE2, CHR 0x81, CHR 0x9F], [CHR 0xE3, CHR 0x80, CHR 0x80],
     [CHR 0xEF, CHR 0xBB, CHR 0xBF]]"

definition leading_space :: "string \<Rightarrow> nat" where
  "leading_space s = (case filter (\<lambda>w. take (length w) s = w) white_space of
      [] \<Rightarrow> 0 | w # _ \<Rightarrow> length w)"

function trim_start :: "string \<Rightarrow> string" where
  "trim_start s = (if leading_space s = 0 then s else trim_start (drop (leading_space s) s))"
  by pat_completeness auto
termination
proof (relation "measure length")
  show "wf (measure length)" by simp
next
  fix s :: string
  assume nz: "leading_space s \<noteq> 0"
  then obtain w ws where f: "filter (\<lambda>w. take (length w) s = w) white_space = w # ws"
    and lw: "leading_space s = length w"
    by (auto simp: leading_space_def split: list.splits)
  have "w \<in> set (filter (\<lambda>w. take (length w) s = w) white_space)"
    by (simp add: f)
  then have "take (length w) s = w" by simp
  with nz lw have "s \<noteq> []" by auto
  with nz show "(drop (leading_space s) s, s) \<in> measure length" by simp
qed

definition trailing_space :: "string \<Rightarrow> nat" where
  "trailing_space s = (case filter (\<lambda>w. length w \<le> length s \<and> drop (length s - length w) s = w) white_space of
      [] \<Rightarrow> 0 | w # _ \<Rightarrow> length w)"

function trim_end :: "string \<Rightarrow> string" where
  "trim_end s = (if trailing_space s = 0 then s else trim_end (take (length s - trailing_space s) s))"
  by pat_completeness auto
termination
proof (relation "measure length")
  show "wf (measure length)" by simp
next
  fix s :: string
  assume nz: "trailing_space s \<noteq> 0"
  then obtain w ws where
    f: "filter (\<lambda>w. length w \<le> length s \<and> drop (length s - length w) s = w) white_space = w # ws"
    and lw: "trailing_space s = length w"
    by (auto simp: trailing_space_def split: list.splits)
  have "w \<in> set (filter (\<lambda>w. length w \<le> length s \<and> drop (length s - length w) s = w) white_space)"
    by (simp add: f)
  then have "length w \<le> length s" by simp
  with nz lw have "s \<noteq> []" by auto
  with nz show "(take (length s - trailing_space s) s, s) \<in> measure length" by simp
qed

definition trim :: "string \<Rightarrow> string" where
  "trim s = trim_end (trim_start s)"


subsection \<open>JSON text\<close>

text \<open>
  \<^verbatim>\<open>JSON.stringify\<close> drops the properties of an object whose value is undefined, writes an
  undefined array element as null, and yields undefined for undefined itself.
\<close>

fun stringify_value :: "json \<Rightarrow> json"
  and stringify_elems :: "json list \<Rightarrow> json list"
  and stringify_fields :: "(string \<times> json) list \<Rightarrow> (string \<times> json) list" where
  "stringify_value (JArr xs) = JArr (stringify_elems xs)"
| "stringify_value (JObj kvs) = JObj (stringify_fields kvs)"
| "stringify_value JUndef = JUndef"
| "stringify_value JNull = JNull"
| "stringify_value (JBool b) = JBool b"
| "stringify_value (JNum n) = JNum n"
| "stringify_value (JStr s) = JStr s"
| "stringify_elems [] = []"
| "stringify_elems (x # xs) =
     (if x = JUndef then JNull else stringify_value x) # stringify_elems xs"
| "stringify_fields [] = []"
| "stringify_fields (kv # kvs) =
     (if snd kv = JUndef then stringify_fields kvs
      else (fst kv, stringify_value (snd kv)) # stringify_fields kvs)"

text \<open>
  A content is either the serialisation of a JSON document, represented by the document, or
  characters that do not parse as JSON. White space and indentation of the serialisation
  are not represented.
\<close>

datatype content = JsonText json | PlainText string

definition JSON_stringify :: "json \<Rightarrow> content option" where
  "JSON_stringify v = (if v = JUndef then None else Some (JsonText (stringify_value v)))"

definition JSON_parse :: "content \<Rightarrow> js_error + json" where
  "JSON_parse t = (case t of JsonText v \<Rightarrow> Inr v | PlainText s \<Rightarrow> Inl SyntaxError)"


section \<open>Files\<close>

text \<open>
  Paths are lists of components below the directory of the script, which always exists.
  The file system operations fail the way the file system's shape makes them fail;
  permissions and device errors are not modelled.
\<close>

type_synonym path = "string list"

record fs =
  dirs :: "path set"
  files :: "path \<rightharpoonup> content"

definition is_dir :: "path \<Rightarrow> fs \<Rightarrow> bool" where
  "is_dir p s = (p = [] \<or> p \<in> dirs s)"

definition existsSync :: "path \<Rightarrow> fs \<Rightarrow> bool" where
  "existsSync p s = (is_dir p s \<or> files s p \<noteq> None)"

definition mkdirSync :: "path \<Rightarrow> fs \<Rightarrow> (js_error + unit) \<times> fs" where
  "mkdirSync p s =
    (if existsSync p s then (Inl (SystemError ''EEXIST''), s)
     else if \<not> is_dir (butlast p) s then (Inl (SystemError ''ENOENT''), s)
     else (Inr (), s\<lparr>dirs := insert p (dirs s)\<rparr>))"

definition writeFileSync :: "path \<Rightarrow> content option \<Rightarrow> fs \<Rightarrow> (js_error + unit) \<times> fs" where
  "writeFileSync p data s =
    (case data of
       None \<Rightarrow> (Inl TypeError, s)
     | Some t \<Rightarrow>
        if is_dir p s then (Inl (SystemError ''EISDIR''), s)
        else if \<not> is_dir (butlast p) s then (Inl (SystemError ''ENOENT''), s)
        else (Inr (), s\<lparr>files := (files s)(p \<mapsto> t)\<rparr>))"

definition readFileSync :: "path \<Rightarrow> fs \<Rightarrow> js_error + content" where
  "readFileSync p s =
    (if is_dir p s then Inl (SystemError ''EISDIR'')
     else case files s p of None \<Rightarrow> Inl (SystemError ''ENOENT'') | Some t \<Rightarrow> Inr t)"

subsection \<open>Token storage\<close>

definition DATA_DIR :: path where
  "DATA_DIR = [''.data'']"

definition TOKEN_PATH :: path where
  "TOKEN_PATH = DATA_DIR @ [''token.json'']"

definition saveToken :: "json \<Rightarrow> fs \<Rightarrow> (js_error + unit) \<times> fs" where
  "saveToken tokenObj s =
    (case (if \<not> existsSync DATA_DIR s then mkdirSync DATA_DIR s else (Inr (), s)) of
       (Inl e, s1) \<Rightarrow> (Inl e, s1)
     | (Inr u, s1) \<Rightarrow> writeFileSync TOKEN_PATH (JSON_stringify tokenObj) s1)"

definition loadToken :: "fs \<Rightarrow> js_error + json" where
  "loadToken s =
    (if \<not> existsSync TOKEN_PATH s then Inr JNull
     else case readFileSync TOKEN_PATH s of Inl e \<Rightarrow> Inl e | Inr t \<Rightarrow> JSON_parse t)"

section \<open>Environment, requests and the platform\<close>

text \<open>
  \<^verbatim>\<open>process.env\<close> maps names to strings; an unset variable reads as undefined. The
  configuration constants of \<^verbatim>\<open>server.js\<close> are read from it. The health check \<^verbatim>\<open>/\<close> and the
  route \<^verbatim>\<open>/auth\<close>, which only builds the redirect that starts the handshake (with \<open>SCOPES\<close>
  and \<open>buildQueryString\<close>), are not modelled.
\<close>

type_synonym env = "string \<rightharpoonup> string"

definition process_env :: "env \<Rightarrow> string \<Rightarrow> json" where
  "process_env env k = (case env k of None \<Rightarrow> JUndef | Some v \<Rightarrow> JStr v)"

definition SHOP :: "env \<Rightarrow> json" where
  "SHOP env = process_env env ''SHOP''"

definition API_KEY :: "env \<Rightarrow> json" where
  "API_KEY env = process_env env ''SHOPIFY_API_KEY''"

definition API_SECRET :: "env \<Rightarrow> json" where
  "API_SECRET env = process_env env ''SHOPIFY_API_SECRET''"

definition HOST :: "env \<Rightarrow> json" where
  "HOST env = process_env env ''HOST''"

definition API_VER :: "env \<Rightarrow> json" where
  "API_VER env = js_or (process_env env ''API_VER'') (JStr ''2025-04'')"

text \<open>
  What the programs take from the Node runtime without defining it: the hexadecimal
  HMAC-SHA256 digest of a message under a key, and the bytes \<^verbatim>\<open>Buffer.from\<close> makes of a
  value that is not a string (or the error it throws).
\<close>

record node_lib =
  hmac_sha256_hex :: "string \<Rightarrow> string \<Rightarrow> string"
  buffer_from_value :: "json \<Rightarrow> js_error + string"

text \<open>
  \<^verbatim>\<open>crypto.createHmac("sha256", secret).update(message).digest("hex")\<close>; a key that is
  not a string is rejected.
\<close>

definition hmac_digest :: "node_lib \<Rightarrow> json \<Rightarrow> string \<Rightarrow> js_error + string" where
  "hmac_digest L secret message =
    (case secret of JStr key \<Rightarrow> Inr (hmac_sha256_hex L key message) | _ \<Rightarrow> Inl TypeError)"

definition Buffer_from :: "node_lib \<Rightarrow> json \<Rightarrow> js_error + string" where
  "Buffer_from L v = (case v of JStr s \<Rightarrow> Inr s | _ \<Rightarrow> buffer_from_value L v)"

definition timingSafeEqual :: "string \<Rightarrow> string \<Rightarrow> js_error + bool" where
  "timingSafeEqual a b = (if length a \<noteq> length b then Inl RangeError else Inr (a = b))"

text \<open>
  A request carries the parsed query string (values are strings, or arrays and objects
  for bracketed parameters) and the parsed JSON body, undefined when there is none.
\<close>

record request =
  query :: "(string \<times> json) list"
  body :: json

datatype payload =
    Text string
  | Json "content option"
  | ServerErrorText js_error
  | ServerErrorJson js_error
  | TokenExchangeFailed "content option"

text \<open>
  \<open>Text s\<close> is \<^verbatim>\<open>res.send(s)\<close> and \<open>Json (JSON_stringify v)\<close> is \<^verbatim>\<open>res.json(v)\<close>. The other
  three stand for strings built from a value the source only prints:
  \<open>ServerErrorText e\<close> for \<^verbatim>\<open>`Server error: ${String(e)}`\<close>,
  \<open>ServerErrorJson e\<close> for \<^verbatim>\<open>{ error: "Server error", details: String(e) }\<close>, and
  \<open>TokenExchangeFailed t\<close> for \<^verbatim>\<open>`Token exchange failed: ${JSON.stringify(tokenJson)}`\<close>.
\<close>

record response =
  status :: nat
  sent :: payload

definition res_send :: "nat \<Rightarrow> string \<Rightarrow> response" where
  "res_send code s = \<lparr>status = code, sent = Text s\<rparr>"

definition res_json :: "nat \<Rightarrow> json \<Rightarrow> response" where
  "res_json code v = \<lparr>status = code, sent = Json (JSON_stringify v)\<rparr>"

text \<open>
  An outbound \<^verbatim>\<open>fetch\<close>, and what comes back: the promise rejects, or a response arrives
  with its \<^verbatim>\<open>ok\<close> flag and the outcome of \<^verbatim>\<open>.json()\<close> on it. The platform is a function
  from calls to outcomes; a handler returns the calls it made, in order.
\<close>

record outbound =
  url :: string
  http_method :: string
  headers :: "(string \<times> json) list"
  content :: "content option"

datatype fetch_result = Rejected js_error | Fetched bool "js_error + json"

type_synonym platform = "outbound \<Rightarrow> fetch_result"

section \<open>Signature checks of \<^verbatim>\<open>server.js\<close>\<close>

definition object_keys :: "(string \<times> json) list \<Rightarrow> string list" where
  "object_keys kvs = remdups (map fst kvs)"

text \<open>\<^verbatim>\<open>.sort()\<close> orders the keys as strings; the model orders their bytes.\<close>

definition verifyHmac :: "node_lib \<Rightarrow> (string \<times> json) list \<Rightarrow> json \<Rightarrow> js_error + bool" where
  "verifyHmac L q secret =
    (let hmac = get_prop (JObj q) ''hmac'';
         rest = filter (\<lambda>kv. fst kv \<noteq> ''hmac'') q
     in if \<not> truthy hmac then Inr False
        else
          let message = join ''&''
                (map (\<lambda>key. key @ ''='' @
                        (case get_prop (JObj rest) key of
                           JArr xs \<Rightarrow> join '','' (elems_to_string xs)
                         | v \<Rightarrow> to_string v))
                     (sort (object_keys rest)))
          in case hmac_digest L secret message of
               Inl e \<Rightarrow> Inl e
             | Inr digest \<Rightarrow>
                 (case Buffer_from L hmac of
                    Inl e \<Rightarrow> Inl e
                  | Inr given \<Rightarrow> timingSafeEqual digest given))"

definition verifyAppProxy :: "node_lib \<Rightarrow> request \<Rightarrow> json \<Rightarrow> js_error + bool" where
  "verifyAppProxy L req secret =
    (let signature = get_prop (JObj (query req)) ''signature'';
         q = filter (\<lambda>kv. fst kv \<noteq> ''signature'') (query req)
     in if \<not> truthy signature then Inr False
        else
          let message = join []
                (map (\<lambda>k. k @ ''='' @ to_string (get_prop (JObj q) k)) (sort (object_keys q)))
          in case hmac_digest L secret message of
               Inl e \<Rightarrow> Inl e
             | Inr digest \<Rightarrow> Inr (JStr digest = signature))"

section \<open>The OAuth callback of \<^verbatim>\<open>server.js\<close>\<close>

text \<open>
  Each part of a handler returns the response it sends, or the exception that reaches the
  handler's \<^verbatim>\<open>catch\<close>, together with the outbound calls made so far and the file system as
  it then is. The parts follow the handler from its end to its start.
\<close>

definition installed_message :: string where
  "installed_message =
     [CHR 0xE2, CHR 0x9C, CHR 0x85] @ '' App installed and token saved. You can close this tab.''"

text \<open>\<open>now\<close> is \<^verbatim>\<open>new Date().toISOString()\<close> at the time of the call.\<close>

definition save_exchanged_token ::
  "json \<Rightarrow> json \<Rightarrow> string \<Rightarrow> fs \<Rightarrow> (js_error + response) \<times> fs" where
  "save_exchanged_token shop tokenJson now s =
    (case dot_prop tokenJson ''access_token'' of
       Inl e \<Rightarrow> (Inl e, s)
     | Inr access_token \<Rightarrow>
        (case dot_prop tokenJson ''scope'' of
           Inl e \<Rightarrow> (Inl e, s)
         | Inr scope \<Rightarrow>
            (case saveToken
                    (JObj [(''shop'', shop), (''access_token'', access_token),
                           (''scope'', scope), (''created_at'', JStr now)]) s of
               (Inl e, s') \<Rightarrow> (Inl e, s')
             | (Inr u, s') \<Rightarrow> (Inr (res_send 200 installed_message), s'))))"

definition token_exchange_call :: "env \<Rightarrow> json \<Rightarrow> json \<Rightarrow> outbound" where
  "token_exchange_call env shop code =
    \<lparr>url = ''https://'' @ to_string shop @ ''/admin/oauth/access_token'',
     http_method = ''POST'',
     headers = [(''Content-Type'', JStr ''application/json'')],
     content = JSON_stringify
       (JObj [(''client_id'', API_KEY env), (''client_secret'', API_SECRET env),
              (''code'', code)])\<rparr>"

definition exchange_code ::
  "env \<Rightarrow> platform \<Rightarrow> string \<Rightarrow> fs \<Rightarrow> json \<Rightarrow> json
     \<Rightarrow> (js_error + response) \<times> outbound list \<times> fs" where
  "exchange_code env net now s shop code =
    (let call = token_exchange_call env shop code
     in case net call of
          Rejected e \<Rightarrow> (Inl e, [call], s)
        | Fetched ok parsed \<Rightarrow>
           (case parsed of
              Inl e \<Rightarrow> (Inl e, [call], s)
            | Inr tokenJson \<Rightarrow>
               if \<not> ok
               then (Inr \<lparr>status = 400, sent = TokenExchangeFailed (JSON_stringify tokenJson)\<rparr>,
                     [call], s)
               else (case save_exchanged_token shop tokenJson now s of
                       (r, s') \<Rightarrow> (r, [call], s'))))"

definition auth_callback_try ::
  "node_lib \<Rightarrow> env \<Rightarrow> platform \<Rightarrow> string \<Rightarrow> fs \<Rightarrow> request
     \<Rightarrow> (js_error + response) \<times> outbound list \<times> fs" where
  "auth_callback_try L env net now s req =
    (if \<not> truthy (API_SECRET env) \<or> \<not> truthy (API_KEY env) \<or> \<not> truthy (HOST env)
        \<or> \<not> truthy (SHOP env)
     then (Inr (res_send 500 ''Missing env vars for OAuth''), [], s)
     else case verifyHmac L (query req) (API_SECRET env) of
            Inl e \<Rightarrow> (Inl e, [], s)
          | Inr valid \<Rightarrow>
             if \<not> valid then (Inr (res_send 400 ''HMAC verification failed''), [], s)
             else
               let shop = get_prop (JObj (query req)) ''shop'';
                   code = get_prop (JObj (query req)) ''code''
               in if \<not> truthy shop \<or> \<not> truthy code
                  then (Inr (res_send 400 ''Missing shop or code''), [], s)
                  else exchange_code env net now s shop code)"

definition auth_callback ::
  "node_lib \<Rightarrow> env \<Rightarrow> platform \<Rightarrow> string \<Rightarrow> fs \<Rightarrow> request
     \<Rightarrow> response \<times> outbound list \<times> fs" where
  "auth_callback L env net now s req =
    (case auth_callback_try L env net now s req of
       (Inl e, calls, s') \<Rightarrow> (\<lparr>status = 500, sent = ServerErrorText e\<rparr>, calls, s')
     | (Inr r, calls, s') \<Rightarrow> (r, calls, s'))"

section \<open>The submission handler of \<^verbatim>\<open>server.js\<close>\<close>

definition query_text :: string where
  "query_text = join [CHR 0x0A]
    [[],
     ''      mutation draftOrderCreate($input: DraftOrderInput!) {'',
     ''        draftOrderCreate(input: $input) {'',
     ''          draftOrder { id name }'',
     ''          userErrors { field message }'',
     ''        }'',
     ''      }'',
     ''    '']"

text \<open>\<^verbatim>\<open>v.trim()\<close>: only strings have the method.\<close>

definition call_trim :: "json \<Rightarrow> js_error + string" where
  "call_trim v = (case v of JStr s \<Rightarrow> Inr (trim s) | _ \<Rightarrow> Inl TypeError)"

text \<open>
  The last note line for a logged-in customer. The customer is not null or undefined
  here, because \<^verbatim>\<open>customer?.logged_in\<close> was truthy, so its properties can be read.
\<close>

definition customer_line :: "json \<Rightarrow> js_error + string" where
  "customer_line customer =
    (case call_trim (js_or (get_prop customer ''first_name'') (JStr [])) of
       Inl e \<Rightarrow> Inl e
     | Inr firstName \<Rightarrow>
        (case call_trim (js_or (get_prop customer ''last_name'') (JStr [])) of
           Inl e \<Rightarrow> Inl e
         | Inr lastName \<Rightarrow>
            Inr (''Customer: '' @ firstName @ '' '' @ lastName @ '' | ''
                 @ to_string (js_or (get_prop customer ''email'') (JStr [])))))"

text \<open>
  From \<open>isLoggedIn\<close> to the optional email: the \<open>draftInput\<close> object. The product is
  not null or undefined here, because \<^verbatim>\<open>product?.title\<close> was truthy.
\<close>

definition build_draft_input :: "json \<Rightarrow> json \<Rightarrow> json \<Rightarrow> js_error + json" where
  "build_draft_input phone product customer =
    (let isLoggedIn = truthy (opt_chain customer ''logged_in'')
     in case (if isLoggedIn then customer_line customer
              else Inr ''Customer: Guest (not logged in)'') of
          Inl e \<Rightarrow> Inl e
        | Inr who \<Rightarrow>
           let noteLines =
                 [''Customization request'',
                  ''Product: '' @ to_string (get_prop product ''title''),
                  ''Link: '' @ to_string (get_prop product ''url''),
                  ''Phone: '' @ to_string phone,
                  who];
               draftInput =
                 [(''tags'', JArr [JStr ''Customization request'']),
                  (''note'', JStr (join [CHR 0x0A] noteLines)),
                  (''lineItems'', JArr
                    [JObj
                      [(''title'', JStr (''Customization request - ''
                                          @ to_string (get_prop product ''title''))),
                       (''quantity'', JNum 1),
                       (''originalUnitPrice'', JStr ''0.00''),
                       (''customAttributes'', JArr
                         [JObj [(''key'', JStr ''Type''), (''value'', JStr ''Customization request'')],
                          JObj [(''key'', JStr ''Product''), (''value'', get_prop product ''title'')],
                          JObj [(''key'', JStr ''Product URL''), (''value'', get_prop product ''url'')],
                          JObj [(''key'', JStr ''Phone''), (''value'', phone)]])]])]
           in Inr (JObj (if isLoggedIn \<and> truthy (opt_chain customer ''email'')
                         then draftInput @ [(''email'', get_prop customer ''email'')]
                         else draftInput)))"

definition graphql_call :: "env \<Rightarrow> json \<Rightarrow> json \<Rightarrow> outbound" where
  "graphql_call env tok draftInput =
    \<lparr>url = ''https://'' @ to_string (get_prop tok ''shop'') @ ''/admin/api/''
            @ to_string (API_VER env) @ ''/graphql.json'',
     http_method = ''POST'',
     headers = [(''Content-Type'', JStr ''application/json''),
                (''X-Shopify-Access-Token'', get_prop tok ''access_token'')],
     content = JSON_stringify
       (JObj [(''query'', JStr query_text),
              (''variables'', JObj [(''input'', draftInput)])])\<rparr>"

text \<open>From \<^verbatim>\<open>await resp.json()\<close> to the response: what the handler answers to the parsed
  platform response.\<close>

definition answer_draft_result :: "json \<Rightarrow> js_error + response" where
  "answer_draft_result json =
    (let result = opt_chain (opt_chain json ''data'') ''draftOrderCreate''
     in if truthy (opt_chain (opt_chain result ''userErrors'') ''length'')
        then (case dot_prop (index0 (get_prop result ''userErrors'')) ''message'' of
                Inl e \<Rightarrow> Inl e
              | Inr message \<Rightarrow>
                 Inr (res_json 400
                   (JObj [(''error'', message), (''raw'', get_prop result ''userErrors'')])))
        else Inr (res_json 200
               (JObj [(''ok'', JBool True),
                      (''draft_name'', opt_chain (opt_chain result ''draftOrder'') ''name'')])))"

definition submit_draft ::
  "env \<Rightarrow> platform \<Rightarrow> json \<Rightarrow> json \<Rightarrow> (js_error + response) \<times> outbound list" where
  "submit_draft env net tok draftInput =
    (let call = graphql_call env tok draftInput
     in case net call of
          Rejected e \<Rightarrow> (Inl e, [call])
        | Fetched ok parsed \<Rightarrow>
           (case parsed of
              Inl e \<Rightarrow> (Inl e, [call])
            | Inr json \<Rightarrow> (answer_draft_result json, [call])))"

definition submit_with_token ::
  "env \<Rightarrow> platform \<Rightarrow> fs \<Rightarrow> request \<Rightarrow> (js_error + response) \<times> outbound list" where
  "submit_with_token env net s req =
    (case loadToken s of
       Inl e \<Rightarrow> (Inl e, [])
     | Inr tok \<Rightarrow>
        if \<not> truthy (opt_chain tok ''access_token'')
        then (Inr (res_json 401
                (JObj [(''error'', JStr ''App not installed / token missing. Visit /auth once.'')])),
              [])
        else
          let b = js_or (body req) (JObj []);
              phone = get_prop b ''phone'';
              product = get_prop b ''product'';
              customer = get_prop b ''customer''
          in if \<not> truthy phone \<or> \<not> truthy (opt_chain product ''title'')
                \<or> \<not> truthy (opt_chain product ''url'')
             then (Inr (res_json 400 (JObj [(''error'', JStr ''Missing phone or product data'')])),
                   [])
             else (case build_draft_input phone product customer of
                     Inl e \<Rightarrow> (Inl e, [])
                   | Inr draftInput \<Rightarrow> submit_draft env net tok draftInput))"

definition customization_request_try ::
  "node_lib \<Rightarrow> env \<Rightarrow> platform \<Rightarrow> fs \<Rightarrow> request
     \<Rightarrow> (js_error + response) \<times> outbound list" where
  "customization_request_try L env net s req =
    (if process_env env ''VERIFY_PROXY'' = JStr ''true''
     then (case verifyAppProxy L req (API_SECRET env) of
             Inl e \<Rightarrow> (Inl e, [])
           | Inr ok \<Rightarrow>
              if \<not> ok
              then (Inr (res_json 401 (JObj [(''error'', JStr ''Invalid proxy signature'')])), [])
              else submit_with_token env net s req)
     else submit_with_token env net s req)"

text \<open>The handler never writes a file: the file system it leaves is the one it found.\<close>

definition customization_request ::
  "node_lib \<Rightarrow> env \<Rightarrow> platform \<Rightarrow> fs \<Rightarrow> request \<Rightarrow> response \<times> outbound list \<times> fs" where
  "customization_request L env net s req =
    (case customization_request_try L env net s req of
       (Inl e, calls) \<Rightarrow> (\<lparr>status = 500, sent = ServerErrorJson e\<rparr>, calls, s)
     | (Inr r, calls) \<Rightarrow> (r, calls, s))"

section \<open>The static-token variant\<close>

text \<open>
  The second program has one route with a body: the same submission path, with the shop
  and an admin token read from the environment and a fixed API version. Its definitions
  are translated from its own source and carry the prefix \<open>static\<close>.
\<close>

definition ADMIN_TOKEN :: "env \<Rightarrow> json" where
  "ADMIN_TOKEN env = process_env env ''ADMIN_TOKEN''"

definition static_API_VER :: string where
  "static_API_VER = ''2025-04''"

definition static_query_text :: string where
  "static_query_text = join [CHR 0x0A]
    [[],
     ''      mutation draftOrderCreate($input: DraftOrderInput!) {'',
     ''        draftOrderCreate(input: $input) {'',
     ''          draftOrder { id name }'',
     ''          userErrors { field message }'',
     ''        }'',
     ''      }'',
     ''    '']"

definition static_build_draft_input :: "json \<Rightarrow> json \<Rightarrow> json \<Rightarrow> js_error + json" where
  "static_build_draft_input phone product customer =
    (let isLoggedIn = truthy (opt_chain customer ''logged_in'')
     in case (if isLoggedIn
              then (case call_trim (js_or (get_prop customer ''first_name'') (JStr [])) of
                      Inl e \<Rightarrow> Inl e
                    | Inr firstName \<Rightarrow>
                       (case call_trim (js_or (get_prop customer ''last_name'') (JStr [])) of
                          Inl e \<Rightarrow> Inl e
                        | Inr lastName \<Rightarrow>
                           Inr (''Customer: '' @ firstName @ '' '' @ lastName @ '' | ''
                                @ to_string (js_or (get_prop customer ''email'') (JStr [])))))
              else Inr ''Customer: Guest (not logged in)'') of
          Inl e \<Rightarrow> Inl e
        | Inr who \<Rightarrow>
           let noteLines =
                 [''Customization request'',
                  ''Product: '' @ to_string (get_prop product ''title''),
                  ''Link: '' @ to_string (get_prop product ''url''),
                  ''Phone: '' @ to_string phone,
                  who];
               draftInput =
                 [(''tags'', JArr [JStr ''Customization request'']),
                  (''note'', JStr (join [CHR 0x0A] noteLines)),
                  (''lineItems'', JArr
                    [JObj
                      [(''title'', JStr (''Customization request - ''
                                          @ to_string (get_prop product ''title''))),
                       (''quantity'', JNum 1),
                       (''originalUnitPrice'', JStr ''0.00''),
                       (''customAttributes'', JArr
                         [JObj [(''key'', JStr ''Type''), (''value'', JStr ''Customization request'')],
                          JObj [(''key'', JStr ''Product''), (''value'', get_prop product ''title'')],
                          JObj [(''key'', JStr ''Product URL''), (''value'', get_prop product ''url'')],
                          JObj [(''key'', JStr ''Phone''), (''value'', phone)]])]])]
           in if isLoggedIn \<and> truthy (opt_chain customer ''email'')
              then Inr (JObj (draftInput @ [(''email'', get_prop customer ''email'')]))
              else Inr (JObj draftInput))"

definition static_graphql_call :: "env \<Rightarrow> json \<Rightarrow> outbound" where
  "static_graphql_call env draftInput =
    \<lparr>url = ''https://'' @ to_string (SHOP env) @ ''/admin/api/'' @ static_API_VER
            @ ''/graphql.json'',
     http_method = ''POST'',
     headers = [(''Content-Type'', JStr ''application/json''),
                (''X-Shopify-Access-Token'', ADMIN_TOKEN env)],
     content = JSON_stringify
       (JObj [(''query'', JStr static_query_text),
              (''variables'', JObj [(''input'', draftInput)])])\<rparr>"

definition static_answer_draft_result :: "json \<Rightarrow> js_error + response" where
  "static_answer_draft_result json =
    (let result = opt_chain (opt_chain json ''data'') ''draftOrderCreate''
     in if truthy (opt_chain (opt_chain result ''userErrors'') ''length'')
        then (case dot_prop (index0 (get_prop result ''userErrors'')) ''message'' of
                Inl e \<Rightarrow> Inl e
              | Inr message \<Rightarrow> Inr (res_json 400 (JObj [(''error'', message)])))
        else Inr (res_json 200
               (JObj [(''ok'', JBool True),
                      (''draft_name'', opt_chain (opt_chain result ''draftOrder'') ''name'')])))"

definition static_customization_request_try ::
  "env \<Rightarrow> platform \<Rightarrow> request \<Rightarrow> (js_error + response) \<times> outbound list" where
  "static_customization_request_try env net req =
    (if \<not> truthy (SHOP env) \<or> \<not> truthy (ADMIN_TOKEN env)
     then (Inr (res_json 500 (JObj [(''error'', JStr ''Missing SHOP or ADMIN_TOKEN env vars'')])),
           [])
     else
       let b = js_or (body req) (JObj []);
           phone = get_prop b ''phone'';
           product = get_prop b ''product'';
           customer = get_prop b ''customer''
       in if \<not> truthy phone \<or> \<not> truthy (opt_chain product ''title'')
             \<or> \<not> truthy (opt_chain product ''url'')
          then (Inr (res_json 400 (JObj [(''error'', JStr ''Missing phone or product data'')])),
                [])
          else (case static_build_draft_input phone product customer of
                  Inl e \<Rightarrow> (Inl e, [])
                | Inr draftInput \<Rightarrow>
                   let call = static_graphql_call env draftInput
                   in (case net call of
                         Rejected e \<Rightarrow> (Inl e, [call])
                       | Fetched ok parsed \<Rightarrow>
                          (case parsed of
                             Inl e \<Rightarrow> (Inl e, [call])
                           | Inr json \<Rightarrow> (static_answer_draft_result json, [call])))))"

definition static_customization_request ::
  "env \<Rightarrow> platform \<Rightarrow> request \<Rightarrow> response \<times> outbound list" where
  "static_customization_request env net req =
    (case static_customization_request_try env net req of
       (Inl e, calls) \<Rightarrow> (\<lparr>status = 500, sent = ServerErrorJson e\<rparr>, calls)
     | (Inr r, calls) \<Rightarrow> (r, calls))"

section \<open>Conditions and sample inputs\<close>

text \<open>
  The token store is usable when \<^verbatim>\<open>.data\<close> is not a regular file and \<^verbatim>\<open>token.json\<close> is not
  a directory: then neither \<open>saveToken\<close> nor \<open>loadToken\<close> hits a file system error.
\<close>

definition store_usable :: "fs \<Rightarrow> bool" where
  "store_usable s = (files s DATA_DIR = None \<and> \<not> is_dir TOKEN_PATH s)"

text \<open>
  \<^verbatim>\<open>json?.data?.draftOrderCreate?.userErrors\<close> of a parsed platform response, and the
  platform outcomes that count as failures: the fetch rejects, the body does not parse, or
  the response carries user errors (\<open>userErrors.length\<close> is truthy).
\<close>

definition user_errors :: "json \<Rightarrow> json" where
  "user_errors json = opt_chain (opt_chain (opt_chain json ''data'') ''draftOrderCreate'') ''userErrors''"

definition failed_outcome :: "fetch_result \<Rightarrow> bool" where
  "failed_outcome fr =
    (case fr of
       Rejected e \<Rightarrow> True
     | Fetched ok parsed \<Rightarrow>
        (case parsed of Inl e \<Rightarrow> True | Inr json \<Rightarrow> truthy (opt_chain (user_errors json) ''length'')))"


text \<open>What each handler makes of the outcome of its one call.\<close>

definition answer_of :: "fetch_result \<Rightarrow> js_error + response" where
  "answer_of fr = (case fr of Rejected e \<Rightarrow> Inl e
      | Fetched ok parsed \<Rightarrow> (case parsed of Inl e \<Rightarrow> Inl e | Inr json \<Rightarrow> answer_draft_result json))"

definition static_answer_of :: "fetch_result \<Rightarrow> js_error + response" where
  "static_answer_of fr = (case fr of Rejected e \<Rightarrow> Inl e
      | Fetched ok parsed \<Rightarrow> (case parsed of Inl e \<Rightarrow> Inl e | Inr json \<Rightarrow> static_answer_draft_result json))"

text \<open>
  The proxy check lets a request through when it is switched off or the signature
  verifies. The three values the submission handlers validate are read from the body, or
  from an empty object when there is no body; data is missing when one of them is falsy.
\<close>

definition proxy_check_passes :: "node_lib \<Rightarrow> env \<Rightarrow> request \<Rightarrow> bool" where
  "proxy_check_passes L env req =
     (env ''VERIFY_PROXY'' \<noteq> Some ''true'' \<or> verifyAppProxy L req (API_SECRET env) = Inr True)"

definition body_phone :: "request \<Rightarrow> json" where
  "body_phone req = get_prop (js_or (body req) (JObj [])) ''phone''"

definition body_product :: "request \<Rightarrow> json" where
  "body_product req = get_prop (js_or (body req) (JObj [])) ''product''"

definition body_customer :: "request \<Rightarrow> json" where
  "body_customer req = get_prop (js_or (body req) (JObj [])) ''customer''"

definition data_missing :: "request \<Rightarrow> bool" where
  "data_missing req =
     (\<not> truthy (body_phone req) \<or> \<not> truthy (opt_chain (body_product req) ''title'')
      \<or> \<not> truthy (opt_chain (body_product req) ''url''))"

text \<open>The three fixed error responses of the submission handler.\<close>

definition signature_error :: response where
  "signature_error = res_json 401 (JObj [(''error'', JStr ''Invalid proxy signature'')])"

definition token_missing_error :: response where
  "token_missing_error =
     res_json 401 (JObj [(''error'', JStr ''App not installed / token missing. Visit /auth once.'')])"

definition missing_data_error :: response where
  "missing_data_error = res_json 400 (JObj [(''error'', JStr ''Missing phone or product data'')])"








text \<open>
  Two responses agree when they have the same status and the same body, or bodies with
  the same \<open>error\<close> where the first also carries \<open>raw\<close>.
\<close>

definition same_answer :: "response \<Rightarrow> response \<Rightarrow> bool" where
  "same_answer r r' =
     (status r' = status r
      \<and> (sent r' = sent r
         \<or> (\<exists>message raw.
               sent r = Json (JSON_stringify (JObj [(''error'', message), (''raw'', raw)]))
               \<and> sent r' = Json (JSON_stringify (JObj [(''error'', message)])))))"

text \<open>
  Conditions of the OAuth callback: the four environment variables it needs, the
  parameters it reads from the query, the token object it saves and the answer to a failed
  exchange.
\<close>

definition env_complete :: "env \<Rightarrow> bool" where
  "env_complete env =
     (truthy (API_SECRET env) \<and> truthy (API_KEY env) \<and> truthy (HOST env) \<and> truthy (SHOP env))"

definition query_shop :: "request \<Rightarrow> json" where
  "query_shop req = get_prop (JObj (query req)) ''shop''"

definition query_code :: "request \<Rightarrow> json" where
  "query_code req = get_prop (JObj (query req)) ''code''"

definition query_hmac :: "request \<Rightarrow> json" where
  "query_hmac req = get_prop (JObj (query req)) ''hmac''"

definition exchanged_token :: "json \<Rightarrow> json \<Rightarrow> string \<Rightarrow> json" where
  "exchanged_token shop tokenJson now =
     JObj [(''shop'', shop), (''access_token'', get_prop tokenJson ''access_token''),
           (''scope'', get_prop tokenJson ''scope''), (''created_at'', JStr now)]"

definition exchange_failed :: "json \<Rightarrow> response" where
  "exchange_failed tokenJson = \<lparr>status = 400, sent = TokenExchangeFailed (JSON_stringify tokenJson)\<rparr>"

text \<open>A hexadecimal SHA-256 digest has 64 characters.\<close>

definition digest_length_64 :: "node_lib \<Rightarrow> bool" where
  "digest_length_64 L = (\<forall>key message. length (hmac_sha256_hex L key message) = 64)"

text \<open>
  Sample inputs, for evaluating the handlers. The sample runtime has a constant digest of
  the right length; no property below depends on it.
\<close>

definition sample_lib :: node_lib where
  "sample_lib = \<lparr>hmac_sha256_hex = (\<lambda>key message. replicate 64 CHR ''0''),
                  buffer_from_value = (\<lambda>v. Inl TypeError)\<rparr>"

definition other_lib :: node_lib where
  "other_lib = \<lparr>hmac_sha256_hex = (\<lambda>key message. replicate 64 CHR ''f''),
                 buffer_from_value = (\<lambda>v. Inr [])\<rparr>"

definition sample_env :: env where
  "sample_env = [''SHOP'' \<mapsto> ''demo.myshopify.com'', ''SHOPIFY_API_KEY'' \<mapsto> ''key'',
                 ''SHOPIFY_API_SECRET'' \<mapsto> ''secret'', ''HOST'' \<mapsto> ''https://relay.example'',
                 ''ADMIN_TOKEN'' \<mapsto> ''shpat_1'']"

definition proxy_env :: env where
  "proxy_env = sample_env(''VERIFY_PROXY'' \<mapsto> ''true'')"

definition empty_fs :: fs where
  "empty_fs = \<lparr>dirs = {}, files = Map.empty\<rparr>"

definition example_token :: json where
  "example_token =
     JObj [(''shop'', JStr ''demo.myshopify.com''), (''access_token'', JStr ''shpat_1''),
           (''scope'', JStr ''write_draft_orders''),
           (''created_at'', JStr ''2025-01-01T00:00:00.000Z'')]"

definition stored_fs :: fs where
  "stored_fs = \<lparr>dirs = {DATA_DIR}, files = [TOKEN_PATH \<mapsto> JsonText example_token]\<rparr>"

definition guest_request :: request where
  "guest_request =
     \<lparr>query = [],
      body = JObj [(''phone'', JStr ''0100''),
                   (''product'', JObj [(''title'', JStr ''Mug''), (''url'', JStr ''/products/mug'')])]\<rparr>"

definition member_request :: request where
  "member_request =
     \<lparr>query = [],
      body = JObj [(''phone'', JStr ''0100''),
                   (''product'', JObj [(''title'', JStr ''Mug''), (''url'', JStr ''/products/mug'')]),
                   (''customer'', JObj [(''logged_in'', JBool True), (''first_name'', JStr '' Ann ''),
                                       (''last_name'', JNull), (''email'', JStr ''ann@example.org'')])]\<rparr>"

definition empty_request :: request where
  "empty_request = \<lparr>query = [], body = JUndef\<rparr>"

definition net_user_error :: platform where
  "net_user_error = (\<lambda>c. Fetched True (Inr
     (JObj [(''data'', JObj [(''draftOrderCreate'',
        JObj [(''draftOrder'', JNull),
              (''userErrors'', JArr [JObj [(''field'', JNull), (''message'', JStr ''Phone is invalid'')]])])])])))"

definition net_created :: platform where
  "net_created = (\<lambda>c. Fetched True (Inr
     (JObj [(''data'', JObj [(''draftOrderCreate'',
        JObj [(''draftOrder'', JObj [(''id'', JStr ''gid://shopify/DraftOrder/1''), (''name'', JStr ''#D1'')]),
              (''userErrors'', JArr [])])])])))"

definition install_request :: request where
  "install_request =
     \<lparr>query = [(''code'', JStr ''c0de''), (''hmac'', JStr (replicate 64 CHR ''0'')),
               (''shop'', JStr ''demo.myshopify.com''), (''timestamp'', JStr ''1700000000'')],
      body = JUndef\<rparr>"

definition short_hmac_request :: request where
  "short_hmac_request =
     \<lparr>query = [(''code'', JStr ''c0de''), (''hmac'', JStr ''abc''),
               (''shop'', JStr ''demo.myshopify.com'')],
      body = JUndef\<rparr>"

definition empty_hmac_request :: request where
  "empty_hmac_request =
     \<lparr>query = [(''code'', JStr ''c0de''), (''hmac'', JStr []),
               (''shop'', JStr ''demo.myshopify.com'')],
      body = JUndef\<rparr>"

definition net_token_granted :: platform where
  "net_token_granted = (\<lambda>c. Fetched True (Inr
     (JObj [(''access_token'', JStr ''shpat_1''), (''scope'', JStr ''write_draft_orders'')])))"

definition net_denied :: platform where
  "net_denied = (\<lambda>c. Fetched False (Inr (JObj [(''error'', JStr ''invalid_request'')])))"

definition net_error_page :: platform where
  "net_error_page = (\<lambda>c. Fetched False (Inl SyntaxError))"

definition sample_now :: string where
  "sample_now = ''2025-01-01T00:00:00.000Z''"

section \<open>Properties of the token store\<close>


lemma saveToken_usable:
  assumes "t \<noteq> JUndef" and "store_usable s"
  shows "saveToken t s =
      (Inr (), \<lparr>dirs = insert DATA_DIR (dirs s),
                files = (files s)(TOKEN_PATH \<mapsto> JsonText (stringify_value t))\<rparr>)"
  using assms
  by (cases s) (auto simp: saveToken_def store_usable_def existsSync_def mkdirSync_def
      writeFileSync_def is_dir_def JSON_stringify_def DATA_DIR_def TOKEN_PATH_def insert_absorb)

lemma store_usable_saved:
  "store_usable s \<Longrightarrow>
     store_usable \<lparr>dirs = insert DATA_DIR (dirs s), files = (files s)(TOKEN_PATH \<mapsto> c)\<rparr>"
  by (auto simp: store_usable_def is_dir_def DATA_DIR_def TOKEN_PATH_def)

lemma loadToken_saved:
  assumes "\<not> is_dir TOKEN_PATH s" and "files s TOKEN_PATH = Some (JsonText t)"
  shows "loadToken s = Inr t"
  using assms by (simp add: loadToken_def existsSync_def readFileSync_def JSON_parse_def)



section \<open>Properties of the submission handlers\<close>

lemmas js_defs = js_or_def opt_chain_def dot_prop_def process_env_def JSON_stringify_def
  JSON_parse_def res_json_def res_send_def show_int_def

lemmas fs_defs = is_dir_def existsSync_def mkdirSync_def writeFileSync_def readFileSync_def
  DATA_DIR_def TOKEN_PATH_def saveToken_def loadToken_def

lemmas server_defs = customization_request_def customization_request_try_def
  submit_with_token_def submit_draft_def answer_draft_result_def graphql_call_def
  build_draft_input_def customer_line_def call_trim_def API_VER_def API_SECRET_def
  verifyAppProxy_def hmac_digest_def object_keys_def

lemmas static_defs = static_customization_request_def static_customization_request_try_def
  static_answer_draft_result_def static_graphql_call_def static_build_draft_input_def
  call_trim_def SHOP_def ADMIN_TOKEN_def static_API_VER_def

lemmas callback_defs = auth_callback_def auth_callback_try_def exchange_code_def
  save_exchanged_token_def token_exchange_call_def verifyHmac_def hmac_digest_def
  Buffer_from_def timingSafeEqual_def object_keys_def API_SECRET_def API_KEY_def HOST_def
  SHOP_def

lemma submit_draft_eq:
  "submit_draft env net tok d =
     (case net (graphql_call env tok d) of
        Rejected e \<Rightarrow> Inl e
      | Fetched ok parsed \<Rightarrow> (case parsed of Inl e \<Rightarrow> Inl e | Inr json \<Rightarrow> answer_draft_result json),
      [graphql_call env tok d])"
  by (simp add: submit_draft_def Let_def split: fetch_result.splits sum.splits)

lemma submit_draft_answer:
  "submit_draft env net tok d = (answer_of (net (graphql_call env tok d)), [graphql_call env tok d])"
  by (simp add: submit_draft_def answer_of_def Let_def split: fetch_result.splits sum.splits)

lemma answer_draft_result_status:
  "answer_draft_result json = Inr r \<Longrightarrow>
     (if truthy (opt_chain (user_errors json) ''length'') then status r = 400 else status r = 200)"
  by (auto simp: answer_draft_result_def user_errors_def Let_def res_json_def split: sum.splits if_splits)

lemma static_answer_draft_result_status:
  "static_answer_draft_result json = Inr r \<Longrightarrow>
     (if truthy (opt_chain (user_errors json) ''length'') then status r = 400 else status r = 200)"
  by (auto simp: static_answer_draft_result_def user_errors_def Let_def res_json_def split: sum.splits if_splits)

lemma static_fetch_eq:
  "(case net c of
      Rejected e \<Rightarrow> (Inl e, [c])
    | Fetched ok parsed \<Rightarrow>
       (case parsed of
          Inl e \<Rightarrow> (Inl e, [c])
        | Inr json \<Rightarrow> (static_answer_draft_result json, [c])))
   = (static_answer_of (net c), [c])"
  by (simp add: static_answer_of_def split: fetch_result.splits sum.splits)

lemma submit_with_token_cases:
  "(\<exists>x. submit_with_token env net s req = (x, [])
        \<and> (case x of Inl e \<Rightarrow> True | Inr r \<Rightarrow> status r = 400 \<or> status r = 401))
   \<or> (\<exists>tok d. submit_with_token env net s req = submit_draft env net tok d)"
  by (auto simp: submit_with_token_def Let_def res_json_def split: sum.splits)

lemma customization_request_try_cases:
  "(\<exists>x. customization_request_try L env net s req = (x, [])
        \<and> (case x of Inl e \<Rightarrow> True | Inr r \<Rightarrow> status r = 400 \<or> status r = 401))
   \<or> (\<exists>tok d. customization_request_try L env net s req = submit_draft env net tok d)"
  using submit_with_token_cases [of env net s req]
  by (auto simp: customization_request_try_def res_json_def split: sum.splits)

lemma static_customization_request_try_cases:
  "(\<exists>x. static_customization_request_try env net req = (x, [])
        \<and> (case x of Inl e \<Rightarrow> True | Inr r \<Rightarrow> status r = 400 \<or> status r = 500))
   \<or> (\<exists>d. static_customization_request_try env net req =
          (static_answer_of (net (static_graphql_call env d)), [static_graphql_call env d]))"
  by (auto simp: static_customization_request_try_def static_fetch_eq Let_def res_json_def
      split: sum.splits)

lemma answer_of_failed:
  "failed_outcome fr \<Longrightarrow> answer_of fr = Inr r \<Longrightarrow> status r = 400"
  by (auto simp: failed_outcome_def answer_of_def split: fetch_result.splits sum.splits
      dest: answer_draft_result_status)

lemma answer_of_200:
  "answer_of fr = Inr r \<Longrightarrow> status r = 200 \<Longrightarrow> \<not> failed_outcome fr"
  by (auto simp: failed_outcome_def answer_of_def split: fetch_result.splits sum.splits
      dest: answer_draft_result_status)

lemma answer_of_status:
  "answer_of fr = Inr r \<Longrightarrow> status r = 400 \<or> status r = 200"
  by (auto simp: answer_of_def split: fetch_result.splits sum.splits if_splits
      dest!: answer_draft_result_status)

lemma static_answer_of_failed:
  "failed_outcome fr \<Longrightarrow> static_answer_of fr = Inr r \<Longrightarrow> status r = 400"
  by (auto simp: failed_outcome_def static_answer_of_def split: fetch_result.splits sum.splits
      dest: static_answer_draft_result_status)

lemma static_answer_of_200:
  "static_answer_of fr = Inr r \<Longrightarrow> status r = 200 \<Longrightarrow> \<not> failed_outcome fr"
  by (auto simp: failed_outcome_def static_answer_of_def split: fetch_result.splits sum.splits
      dest: static_answer_draft_result_status)

lemma verify_proxy_env:
  "(process_env env ''VERIFY_PROXY'' = JStr ''true'') = (env ''VERIFY_PROXY'' = Some ''true'')"
  by (simp add: process_env_def split: option.splits)

lemma customization_request_check_passes:
  "proxy_check_passes L env req \<Longrightarrow>
     customization_request_try L env net s req = submit_with_token env net s req"
  by (auto simp: proxy_check_passes_def customization_request_try_def verify_proxy_env)

lemma customization_request_check_fails:
  "env ''VERIFY_PROXY'' = Some ''true'' \<Longrightarrow> verifyAppProxy L req (API_SECRET env) = Inr False \<Longrightarrow>
     customization_request L env net s req = (signature_error, [], s)"
  by (simp add: customization_request_def customization_request_try_def verify_proxy_env
      signature_error_def)

lemma submit_with_token_query:
  "submit_with_token env net s (req\<lparr>query := q\<rparr>) = submit_with_token env net s req"
  by (simp add: submit_with_token_def Let_def cong: sum.case_cong if_cong)

lemma submit_with_token_not_signature_error:
  "fst (submit_with_token env net s req) \<noteq> Inr signature_error"
proof
  assume a: "fst (submit_with_token env net s req) = Inr signature_error"
  from submit_with_token_cases [of env net s req] show False
  proof (elim disjE exE conjE)
    fix x
    assume "submit_with_token env net s req = (x, [])"
    with a show False
      by (auto simp: submit_with_token_def signature_error_def res_json_def JSON_stringify_def
          Let_def submit_draft_answer split: sum.splits if_splits)
  next
    fix tok d
    assume "submit_with_token env net s req = submit_draft env net tok d"
    with a have "answer_of (net (graphql_call env tok d)) = Inr signature_error"
      by (simp add: submit_draft_answer)
    from answer_of_status [OF this] show False
      by (simp add: signature_error_def res_json_def)
  qed
qed

lemma guest_user_error_run:
  "customization_request sample_lib sample_env net_user_error stored_fs guest_request =
     (res_json 400 (JObj [(''error'', JStr ''Phone is invalid''),
         (''raw'', JArr [JObj [(''field'', JNull), (''message'', JStr ''Phone is invalid'')]])]),
      [graphql_call sample_env example_token
         (JObj [(''tags'', JArr [JStr ''Customization request'']),
                (''note'', JStr (join [CHR 0x0A] [''Customization request'', ''Product: Mug'',
                    ''Link: /products/mug'', ''Phone: 0100'', ''Customer: Guest (not logged in)''])),
                (''lineItems'', JArr [JObj [(''title'', JStr ''Customization request - Mug''),
                    (''quantity'', JNum 1), (''originalUnitPrice'', JStr ''0.00''),
                    (''customAttributes'', JArr
                       [JObj [(''key'', JStr ''Type''), (''value'', JStr ''Customization request'')],
                        JObj [(''key'', JStr ''Product''), (''value'', JStr ''Mug'')],
                        JObj [(''key'', JStr ''Product URL''), (''value'', JStr ''/products/mug'')],
                        JObj [(''key'', JStr ''Phone''), (''value'', JStr ''0100'')]])]])])],
      stored_fs)"
  by (simp add: server_defs js_defs fs_defs sample_env_def stored_fs_def guest_request_def
      net_user_error_def example_token_def Let_def)

lemma guest_user_error_static_run:
  "static_customization_request sample_env net_user_error guest_request =
     (res_json 400 (JObj [(''error'', JStr ''Phone is invalid'')]),
      [static_graphql_call sample_env
         (JObj [(''tags'', JArr [JStr ''Customization request'']),
                (''note'', JStr (join [CHR 0x0A] [''Customization request'', ''Product: Mug'',
                    ''Link: /products/mug'', ''Phone: 0100'', ''Customer: Guest (not logged in)''])),
                (''lineItems'', JArr [JObj [(''title'', JStr ''Customization request - Mug''),
                    (''quantity'', JNum 1), (''originalUnitPrice'', JStr ''0.00''),
                    (''customAttributes'', JArr
                       [JObj [(''key'', JStr ''Type''), (''value'', JStr ''Customization request'')],
                        JObj [(''key'', JStr ''Product''), (''value'', JStr ''Mug'')],
                        JObj [(''key'', JStr ''Product URL''), (''value'', JStr ''/products/mug'')],
                        JObj [(''key'', JStr ''Phone''), (''value'', JStr ''0100'')]])]])])])"
  by (simp add: static_defs js_defs sample_env_def guest_request_def
      net_user_error_def Let_def)

lemma guest_created_run:
  "fst (customization_request sample_lib sample_env net_created stored_fs guest_request)
     = res_json 200 (JObj [(''ok'', JBool True), (''draft_name'', JStr ''#D1'')])
   \<and> snd (snd (customization_request sample_lib sample_env net_created stored_fs guest_request))
     = stored_fs"
  by (simp add: server_defs js_defs fs_defs sample_env_def stored_fs_def guest_request_def
      net_created_def example_token_def Let_def)

lemma guest_created_static_run:
  "fst (static_customization_request sample_env net_created guest_request)
     = res_json 200 (JObj [(''ok'', JBool True), (''draft_name'', JStr ''#D1'')])"
  by (simp add: static_defs js_defs sample_env_def guest_request_def net_created_def Let_def)

lemma net_user_error_failed: "failed_outcome (net_user_error c)"
  by (simp add: failed_outcome_def net_user_error_def user_errors_def js_defs)

lemma guest_unsigned: "verifyAppProxy sample_lib guest_request (API_SECRET proxy_env) = Inr False"
  by (simp add: verifyAppProxy_def guest_request_def)

lemma empty_fs_no_token: "\<not> existsSync TOKEN_PATH empty_fs"
  by (simp add: existsSync_def empty_fs_def is_dir_def TOKEN_PATH_def DATA_DIR_def)

lemma stored_fs_token:
  "loadToken stored_fs = Inr example_token" "truthy (opt_chain example_token ''access_token'')"
  by (simp_all add: fs_defs js_defs stored_fs_def example_token_def)



lemma server_at_most_one:
  assumes "customization_request L env net s req = (r, calls, s')"
  shows "length calls \<le> 1 \<and> s' = s
        \<and> (\<forall>c. calls = [c] \<and> failed_outcome (net c) \<longrightarrow> status r = 400 \<or> status r = 500)
        \<and> (status r = 200 \<longrightarrow> (\<exists>c. calls = [c] \<and> \<not> failed_outcome (net c)))"
  using customization_request_try_cases [of L env net s req]
proof (elim disjE exE conjE)
  fix x
  assume "customization_request_try L env net s req = (x, [])"
    and "case x of Inl e \<Rightarrow> True | Inr r \<Rightarrow> status r = 400 \<or> status r = 401"
  with assms show ?thesis
    by (auto simp: customization_request_def split: sum.splits)
next
  fix tok d
  assume "customization_request_try L env net s req = submit_draft env net tok d"
  with assms show ?thesis
    by (auto simp: customization_request_def submit_draft_answer split: sum.splits
        dest: answer_of_failed answer_of_200)
qed

lemma static_at_most_one:
  assumes "static_customization_request env net req = (r, calls)"
  shows "length calls \<le> 1
        \<and> (\<forall>c. calls = [c] \<and> failed_outcome (net c) \<longrightarrow> status r = 400 \<or> status r = 500)
        \<and> (status r = 200 \<longrightarrow> (\<exists>c. calls = [c] \<and> \<not> failed_outcome (net c)))"
  using static_customization_request_try_cases [of env net req]
proof (elim disjE exE conjE)
  fix x
  assume "static_customization_request_try env net req = (x, [])"
    and "case x of Inl e \<Rightarrow> True | Inr r \<Rightarrow> status r = 400 \<or> status r = 500"
  with assms show ?thesis
    by (auto simp: static_customization_request_def split: sum.splits)
next
  fix d
  assume "static_customization_request_try env net req =
          (static_answer_of (net (static_graphql_call env d)), [static_graphql_call env d])"
  with assms show ?thesis
    by (auto simp: static_customization_request_def split: sum.splits
        dest: static_answer_of_failed static_answer_of_200)
qed

text \<open>
  C7. A submission causes at most one outbound call, in both programs: the handler returns
  no call or exactly one, it leaves the files as they were (nothing is queued), a failed
  outcome of the call (rejected fetch, unparsable body, user errors) is answered with status
  400 or 500 after that one call, and status 200 is only sent after one call whose outcome
  was not a failure.
\<close>

theorem at_most_one_mutation:
  "(case customization_request L env net s req of
      (r, calls, s') \<Rightarrow>
        length calls \<le> 1 \<and> s' = s
        \<and> (\<forall>c. calls = [c] \<and> failed_outcome (net c) \<longrightarrow> status r = 400 \<or> status r = 500)
        \<and> (status r = 200 \<longrightarrow> (\<exists>c. calls = [c] \<and> \<not> failed_outcome (net c))))
   \<and> (case static_customization_request env' net' req' of
      (r, calls) \<Rightarrow>
        length calls \<le> 1
        \<and> (\<forall>c. calls = [c] \<and> failed_outcome (net' c) \<longrightarrow> status r = 400 \<or> status r = 500)
        \<and> (status r = 200 \<longrightarrow> (\<exists>c. calls = [c] \<and> \<not> failed_outcome (net' c))))"
proof
  obtain r calls s' where e: "customization_request L env net s req = (r, calls, s')"
    by (cases "customization_request L env net s req") auto
  from server_at_most_one [OF e] show "case customization_request L env net s req of
      (r, calls, s') \<Rightarrow>
        length calls \<le> 1 \<and> s' = s
        \<and> (\<forall>c. calls = [c] \<and> failed_outcome (net c) \<longrightarrow> status r = 400 \<or> status r = 500)
        \<and> (status r = 200 \<longrightarrow> (\<exists>c. calls = [c] \<and> \<not> failed_outcome (net c)))"
    by (simp add: e)
next
  obtain r calls where e: "static_customization_request env' net' req' = (r, calls)"
    by (cases "static_customization_request env' net' req'") auto
  from static_at_most_one [OF e] show "case static_customization_request env' net' req' of
      (r, calls) \<Rightarrow>
        length calls \<le> 1
        \<and> (\<forall>c. calls = [c] \<and> failed_outcome (net' c) \<longrightarrow> status r = 400 \<or> status r = 500)
        \<and> (status r = 200 \<longrightarrow> (\<exists>c. calls = [c] \<and> \<not> failed_outcome (net' c)))"
    by (simp add: e)
qed

theorem at_most_one_mutation_witness:
  "(\<exists>r c. customization_request sample_lib sample_env net_user_error stored_fs guest_request
              = (r, [c], stored_fs)
          \<and> failed_outcome (net_user_error c) \<and> (status r = 400 \<or> status r = 500))
   \<and> (\<exists>r c. static_customization_request sample_env net_user_error guest_request = (r, [c])
          \<and> failed_outcome (net_user_error c) \<and> (status r = 400 \<or> status r = 500))
   \<and> (\<exists>r c. customization_request sample_lib sample_env net_created stored_fs guest_request
              = (r, [c], stored_fs)
          \<and> status r = 200 \<and> \<not> failed_outcome (net_created c))
   \<and> (\<exists>r c. static_customization_request sample_env net_created guest_request = (r, [c])
          \<and> status r = 200 \<and> \<not> failed_outcome (net_created c))"
proof -
  obtain r c where e: "customization_request sample_lib sample_env net_user_error stored_fs
      guest_request = (r, [c], stored_fs)"
    using guest_user_error_run by blast
  obtain r' c' where e': "static_customization_request sample_env net_user_error guest_request
      = (r', [c'])"
    using guest_user_error_static_run by blast
  have "status r = 400 \<or> status r = 500" "status r' = 400 \<or> status r' = 500"
    using at_most_one_mutation [where L = sample_lib and env = sample_env
        and net = net_user_error and s = stored_fs and req = guest_request
        and env' = sample_env and net' = net_user_error and req' = guest_request]
      net_user_error_failed e e'
    by auto
  with e e' net_user_error_failed have failing:
    "\<exists>r c. customization_request sample_lib sample_env net_user_error stored_fs guest_request
              = (r, [c], stored_fs)
          \<and> failed_outcome (net_user_error c) \<and> (status r = 400 \<or> status r = 500)"
    "\<exists>r c. static_customization_request sample_env net_user_error guest_request = (r, [c])
          \<and> failed_outcome (net_user_error c) \<and> (status r = 400 \<or> status r = 500)"
    by blast+
  obtain q calls where g: "customization_request sample_lib sample_env net_created stored_fs
      guest_request = (q, calls, stored_fs)" and gq: "status q = 200"
    using guest_created_run
    by (cases "customization_request sample_lib sample_env net_created stored_fs guest_request")
      (auto simp: res_json_def)
  obtain q' calls' where g': "static_customization_request sample_env net_created guest_request
      = (q', calls')" and gq': "status q' = 200"
    using guest_created_static_run
    by (cases "static_customization_request sample_env net_created guest_request")
      (auto simp: res_json_def)
  have "\<exists>c. calls = [c] \<and> \<not> failed_outcome (net_created c)"
    "\<exists>c. calls' = [c] \<and> \<not> failed_outcome (net_created c)"
    using at_most_one_mutation [where L = sample_lib and env = sample_env
        and net = net_created and s = stored_fs and req = guest_request
        and env' = sample_env and net' = net_created and req' = guest_request]
      g gq g' gq'
    by auto
  with g gq g' gq' have succeeding:
    "\<exists>r c. customization_request sample_lib sample_env net_created stored_fs guest_request
              = (r, [c], stored_fs)
          \<and> status r = 200 \<and> \<not> failed_outcome (net_created c)"
    "\<exists>r c. static_customization_request sample_env net_created guest_request = (r, [c])
          \<and> status r = 200 \<and> \<not> failed_outcome (net_created c)"
    by blast+
  from failing succeeding show ?thesis by blast
qed

text \<open>
  C10. The App Proxy signature check is opt-in: the handler answers 401 with
  \<^verbatim>\<open>{error: "Invalid proxy signature"}\<close> if and only if \<open>VERIFY_PROXY\<close> is exactly \<open>true\<close>
  and \<open>verifyAppProxy\<close> returns false; and when \<open>VERIFY_PROXY\<close> is anything else or unset,
  the outcome does not depend on the query string (where the signature is) nor on the
  digest function.
\<close>

theorem proxy_signature_opt_in:
  "(fst (customization_request L env net s req) = signature_error
      \<longleftrightarrow> env ''VERIFY_PROXY'' = Some ''true'' \<and> verifyAppProxy L req (API_SECRET env) = Inr False)
   \<and> (env ''VERIFY_PROXY'' \<noteq> Some ''true'' \<longrightarrow>
        customization_request L env net s req
          = customization_request L' env net s (req\<lparr>query := q\<rparr>))"
proof (intro conjI iffI impI)
  assume a: "fst (customization_request L env net s req) = signature_error"
  have t: "fst (customization_request_try L env net s req) = Inr signature_error"
    using a
    by (cases "customization_request_try L env net s req")
      (auto simp: customization_request_def signature_error_def res_json_def split: sum.splits)
  show "env ''VERIFY_PROXY'' = Some ''true''"
  proof (rule ccontr)
    assume "env ''VERIFY_PROXY'' \<noteq> Some ''true''"
    then have "customization_request_try L env net s req = submit_with_token env net s req"
      by (simp add: customization_request_check_passes proxy_check_passes_def)
    with t submit_with_token_not_signature_error show False by metis
  qed
  then have v: "process_env env ''VERIFY_PROXY'' = JStr ''true''"
    by (simp add: verify_proxy_env)
  show "verifyAppProxy L req (API_SECRET env) = Inr False"
  proof (cases "verifyAppProxy L req (API_SECRET env)")
    case (Inl e)
    with t v show ?thesis by (simp add: customization_request_try_def)
  next
    case (Inr okv)
    show ?thesis
    proof (cases okv)
      case True
      with Inr v have "customization_request_try L env net s req = submit_with_token env net s req"
        by (simp add: customization_request_try_def)
      with t submit_with_token_not_signature_error show ?thesis by metis
    next
      case False
      with Inr show ?thesis by simp
    qed
  qed
next
  assume "env ''VERIFY_PROXY'' = Some ''true'' \<and> verifyAppProxy L req (API_SECRET env) = Inr False"
  then show "fst (customization_request L env net s req) = signature_error"
    by (simp add: customization_request_check_fails)
next
  assume "env ''VERIFY_PROXY'' \<noteq> Some ''true''"
  then show "customization_request L env net s req
          = customization_request L' env net s (req\<lparr>query := q\<rparr>)"
    by (simp add: customization_request_def customization_request_try_def verify_proxy_env
        submit_with_token_query)
qed

theorem proxy_signature_opt_in_witness:
  "proxy_env ''VERIFY_PROXY'' = Some ''true''
   \<and> verifyAppProxy sample_lib guest_request (API_SECRET proxy_env) = Inr False
   \<and> fst (customization_request sample_lib proxy_env net_user_error stored_fs guest_request)
       = signature_error
   \<and> sample_env ''VERIFY_PROXY'' \<noteq> Some ''true''
   \<and> customization_request sample_lib sample_env net_user_error stored_fs guest_request
       = customization_request other_lib sample_env net_user_error stored_fs
           (guest_request\<lparr>query := [(''signature'', JStr ''forged'')]\<rparr>)"
proof -
  have a: "proxy_env ''VERIFY_PROXY'' = Some ''true''"
    by (simp add: proxy_env_def)
  have b: "sample_env ''VERIFY_PROXY'' \<noteq> Some ''true''"
    by (simp add: sample_env_def)
  show ?thesis
    using a b guest_unsigned
      proxy_signature_opt_in [where L = sample_lib and env = proxy_env and net = net_user_error
        and s = stored_fs and req = guest_request]
      proxy_signature_opt_in [where L = sample_lib and env = sample_env and net = net_user_error
        and s = stored_fs and req = guest_request and L' = other_lib
        and q = "[(''signature'', JStr ''forged'')]"]
    by blast
qed

lemma missing_token_run:
  assumes "proxy_check_passes L env req"
    and "\<not> existsSync TOKEN_PATH s
         \<or> (\<exists>tok. loadToken s = Inr tok \<and> \<not> truthy (opt_chain tok ''access_token''))"
  shows "customization_request L env net s req = (token_missing_error, [], s)"
proof -
  have "\<exists>tok. loadToken s = Inr tok \<and> \<not> truthy (opt_chain tok ''access_token'')"
  proof (cases "existsSync TOKEN_PATH s")
    case True
    with assms(2) show ?thesis by simp
  next
    case False
    then have "loadToken s = Inr JNull" by (simp add: loadToken_def)
    then show ?thesis by (simp add: opt_chain_def)
  qed
  then obtain tok where "loadToken s = Inr tok" "\<not> truthy (opt_chain tok ''access_token'')"
    by blast
  then have "submit_with_token env net s req = (Inr token_missing_error, [])"
    by (simp add: submit_with_token_def token_missing_error_def)
  with assms(1) show ?thesis
    by (simp add: customization_request_def customization_request_check_passes)
qed

text \<open>
  C6 as stated fails when the proxy check is on: with no token stored and an unsigned
  request the handler answers 401 with the signature error, which does not mention
  \<^verbatim>\<open>/auth\<close>.
\<close>

theorem missing_token_counterexample:
  "\<not> existsSync TOKEN_PATH empty_fs
   \<and> customization_request sample_lib proxy_env net_user_error empty_fs guest_request
       = (res_json 401 (JObj [(''error'', JStr ''Invalid proxy signature'')]), [], empty_fs)
   \<and> fst (customization_request sample_lib proxy_env net_user_error empty_fs guest_request)
       \<noteq> res_json 401
            (JObj [(''error'', JStr ''App not installed / token missing. Visit /auth once.'')])"
proof -
  have "customization_request sample_lib proxy_env net_user_error empty_fs guest_request
       = (signature_error, [], empty_fs)"
    by (rule customization_request_check_fails) (simp add: proxy_env_def, rule guest_unsigned)
  then show ?thesis
    using empty_fs_no_token
    by (simp add: signature_error_def res_json_def JSON_stringify_def)
qed

text \<open>
  C6, amended. When the proxy check lets the request through, and no token file exists or
  the stored token has no truthy \<open>access_token\<close>, the handler answers 401 with the error
  that tells the operator to visit \<^verbatim>\<open>/auth\<close>, makes no outbound call and leaves the files as
  they were.
\<close>

theorem missing_token_unauthorized:
  assumes "proxy_check_passes L env req"
    and "\<not> existsSync TOKEN_PATH s
         \<or> (\<exists>tok. loadToken s = Inr tok \<and> \<not> truthy (opt_chain tok ''access_token''))"
  shows "customization_request L env net s req = (token_missing_error, [], s)"
  using assms by (rule missing_token_run)

theorem missing_token_unauthorized_witness:
  "proxy_check_passes sample_lib sample_env guest_request
   \<and> \<not> existsSync TOKEN_PATH empty_fs
   \<and> customization_request sample_lib sample_env net_user_error empty_fs guest_request
       = (token_missing_error, [], empty_fs)"
proof -
  have g: "proxy_check_passes sample_lib sample_env guest_request"
    by (simp add: proxy_check_passes_def sample_env_def)
  show ?thesis
    using g empty_fs_no_token
      missing_token_unauthorized [where L = sample_lib and env = sample_env
        and req = guest_request and s = empty_fs and net = net_user_error]
    by simp
qed

text \<open>
  C2 as stated fails in \<^verbatim>\<open>server.js\<close> when no token is stored: the token check comes before
  the validation of the body, so a request without a body is answered 401, not 400.
\<close>

theorem missing_data_counterexample:
  "data_missing empty_request
   \<and> customization_request sample_lib sample_env net_user_error empty_fs empty_request
       = (res_json 401
            (JObj [(''error'', JStr ''App not installed / token missing. Visit /auth once.'')]),
          [], empty_fs)
   \<and> status (fst (customization_request sample_lib sample_env net_user_error empty_fs
         empty_request)) \<noteq> 400"
proof -
  have g: "proxy_check_passes sample_lib sample_env empty_request"
    by (simp add: proxy_check_passes_def sample_env_def)
  have "customization_request sample_lib sample_env net_user_error empty_fs empty_request
       = (token_missing_error, [], empty_fs)"
    using g empty_fs_no_token by (intro missing_token_run) simp_all
  moreover have "data_missing empty_request"
    by (simp add: data_missing_def body_phone_def empty_request_def js_defs)
  ultimately show ?thesis
    by (simp add: token_missing_error_def res_json_def)
qed

text \<open>
  C2, amended. A request whose body (or missing body) lacks a truthy phone, product title
  or product url is answered 400 with \<^verbatim>\<open>{error: "Missing phone or product data"}\<close>, with no
  outbound call and the files unchanged, once the earlier checks of the handler have
  passed: in \<^verbatim>\<open>server.js\<close> the proxy check and the stored token with an \<open>access_token\<close>, in the
  static-token variant the presence of \<open>SHOP\<close> and \<open>ADMIN_TOKEN\<close>.
\<close>

theorem missing_data_rejected:
  assumes "data_missing req"
  shows "(proxy_check_passes L env req
            \<and> (\<exists>tok. loadToken s = Inr tok \<and> truthy (opt_chain tok ''access_token''))
          \<longrightarrow> customization_request L env net s req = (missing_data_error, [], s))
       \<and> (truthy (SHOP env') \<and> truthy (ADMIN_TOKEN env')
          \<longrightarrow> static_customization_request env' net' req = (missing_data_error, []))"
proof (intro conjI impI)
  assume a: "proxy_check_passes L env req
            \<and> (\<exists>tok. loadToken s = Inr tok \<and> truthy (opt_chain tok ''access_token''))"
  then obtain tok where "loadToken s = Inr tok" "truthy (opt_chain tok ''access_token'')"
    by blast
  with assms have "submit_with_token env net s req = (Inr missing_data_error, [])"
    by (auto simp: submit_with_token_def missing_data_error_def data_missing_def body_phone_def
        body_product_def Let_def)
  with a show "customization_request L env net s req = (missing_data_error, [], s)"
    by (simp add: customization_request_def customization_request_check_passes)
next
  assume "truthy (SHOP env') \<and> truthy (ADMIN_TOKEN env')"
  with assms show "static_customization_request env' net' req = (missing_data_error, [])"
    by (auto simp: static_customization_request_def static_customization_request_try_def
        missing_data_error_def data_missing_def body_phone_def body_product_def Let_def)
qed

theorem missing_data_rejected_witness:
  "data_missing empty_request
   \<and> proxy_check_passes sample_lib sample_env empty_request
   \<and> loadToken stored_fs = Inr example_token \<and> truthy (opt_chain example_token ''access_token'')
   \<and> truthy (SHOP sample_env) \<and> truthy (ADMIN_TOKEN sample_env)
   \<and> customization_request sample_lib sample_env net_user_error stored_fs empty_request
       = (missing_data_error, [], stored_fs)
   \<and> static_customization_request sample_env net_user_error empty_request
       = (missing_data_error, [])"
proof -
  have g: "proxy_check_passes sample_lib sample_env empty_request"
    by (simp add: proxy_check_passes_def sample_env_def)
  have m: "data_missing empty_request"
    by (simp add: data_missing_def body_phone_def empty_request_def js_defs)
  have e: "truthy (SHOP sample_env)" "truthy (ADMIN_TOKEN sample_env)"
    by (simp_all add: SHOP_def ADMIN_TOKEN_def process_env_def sample_env_def)
  show ?thesis
    using g m e stored_fs_token
      missing_data_rejected [OF m, where L = sample_lib and env = sample_env and s = stored_fs
        and net = net_user_error and env' = sample_env and net' = net_user_error]
    by blast
qed
















lemma static_build_draft_input_eq:
  "static_build_draft_input phone product customer = build_draft_input phone product customer"
  by (simp add: static_build_draft_input_def build_draft_input_def customer_line_def Let_def
      split: sum.splits)

lemma static_query_text_eq: "static_query_text = query_text"
  by (simp add: static_query_text_def query_text_def)

lemma static_graphql_call_content:
  "content (static_graphql_call env' d) = content (graphql_call env tok d)"
  by (simp add: static_graphql_call_def graphql_call_def static_query_text_eq)

lemma answer_draft_result_same:
  "(case (answer_draft_result json, static_answer_draft_result json) of
      (Inl e, Inl e') \<Rightarrow> e' = e
    | (Inr r, Inr r') \<Rightarrow> same_answer r r'
    | _ \<Rightarrow> False)"
  by (auto simp: answer_draft_result_def static_answer_draft_result_def Let_def same_answer_def
      res_json_def split: sum.splits)

lemma answer_of_same:
  "(case (answer_of fr, static_answer_of fr) of
      (Inl e, Inl e') \<Rightarrow> e' = e
    | (Inr r, Inr r') \<Rightarrow> same_answer r r'
    | _ \<Rightarrow> False)"
proof (cases fr)
  case (Rejected e)
  then show ?thesis by (simp add: answer_of_def static_answer_of_def)
next
  case (Fetched ok parsed)
  show ?thesis
  proof (cases parsed)
    case (Inl e)
    with Fetched show ?thesis by (simp add: answer_of_def static_answer_of_def)
  next
    case (Inr json)
    with Fetched answer_draft_result_same [of json] show ?thesis
      by (simp add: answer_of_def static_answer_of_def)
  qed
qed

lemma static_try_valid:
  assumes "truthy (SHOP env)" and "truthy (ADMIN_TOKEN env)"
  shows "static_customization_request_try env net req =
     (if data_missing req then (Inr missing_data_error, [])
      else case build_draft_input (body_phone req) (body_product req) (body_customer req) of
             Inl e \<Rightarrow> (Inl e, [])
           | Inr d \<Rightarrow> (static_answer_of (net (static_graphql_call env d)),
                        [static_graphql_call env d]))"
  using assms
  by (auto simp: static_customization_request_try_def static_fetch_eq Let_def data_missing_def
      body_phone_def body_product_def body_customer_def missing_data_error_def
      static_build_draft_input_eq split: sum.splits)

lemma server_try_valid:
  assumes "proxy_check_passes L env req" and "loadToken s = Inr tok"
    and "truthy (opt_chain tok ''access_token'')"
  shows "customization_request_try L env net s req =
     (if data_missing req then (Inr missing_data_error, [])
      else case build_draft_input (body_phone req) (body_product req) (body_customer req) of
             Inl e \<Rightarrow> (Inl e, [])
           | Inr d \<Rightarrow> (answer_of (net (graphql_call env tok d)), [graphql_call env tok d]))"
  using assms
  by (auto simp: customization_request_check_passes submit_with_token_def Let_def data_missing_def
      body_phone_def body_product_def body_customer_def missing_data_error_def
      submit_draft_answer split: sum.splits)

text \<open>
  C5 as stated fails on the response body: for a platform response with user errors
  \<^verbatim>\<open>server.js\<close> sends \<open>error\<close> and \<open>raw\<close>, the static-token variant only \<open>error\<close>.
\<close>

theorem variants_agree_counterexample:
  "sent (fst (customization_request sample_lib sample_env net_user_error stored_fs guest_request))
     \<noteq> sent (fst (static_customization_request sample_env net_user_error guest_request))"
  by (simp add: guest_user_error_run guest_user_error_static_run res_json_def JSON_stringify_def)

text \<open>
  C5, amended. The two programs build the same draft input from every phone, product and
  customer; and once each has passed its own checks (proxy check and stored token in
  \<^verbatim>\<open>server.js\<close>, \<open>SHOP\<close> and \<open>ADMIN_TOKEN\<close> in the static variant), for every request and every
  platform outcome they send the same request body to the platform and answer with the
  same status and the same body, except that on user errors \<^verbatim>\<open>server.js\<close> adds \<open>raw\<close> to the
  \<open>error\<close> both send.
\<close>

theorem variants_agree:
  assumes "proxy_check_passes L env req" and "loadToken s = Inr tok"
    and "truthy (opt_chain tok ''access_token'')"
    and "truthy (SHOP env')" and "truthy (ADMIN_TOKEN env')"
  shows "static_build_draft_input phone product customer
           = build_draft_input phone product customer
       \<and> (case (customization_request L env (\<lambda>c. fr) s req,
                static_customization_request env' (\<lambda>c. fr) req) of
            ((r, calls, s'), (r', calls')) \<Rightarrow>
               same_answer r r' \<and> map content calls' = map content calls)"
proof
  show "static_build_draft_input phone product customer
           = build_draft_input phone product customer"
    by (rule static_build_draft_input_eq)
next
  show "case (customization_request L env (\<lambda>c. fr) s req,
                static_customization_request env' (\<lambda>c. fr) req) of
            ((r, calls, s'), (r', calls')) \<Rightarrow>
               same_answer r r' \<and> map content calls' = map content calls"
  proof (cases "data_missing req")
    case True
    then show ?thesis
      using assms
      by (simp add: customization_request_def static_customization_request_def
          server_try_valid static_try_valid same_answer_def)
  next
    case False
    show ?thesis
    proof (cases "build_draft_input (body_phone req) (body_product req) (body_customer req)")
      case (Inl e)
      with False show ?thesis
        using assms
        by (simp add: customization_request_def static_customization_request_def
            server_try_valid static_try_valid same_answer_def)
    next
      case (Inr d)
      with False show ?thesis
        using assms answer_of_same [of fr]
        by (auto simp: customization_request_def static_customization_request_def
            server_try_valid static_try_valid same_answer_def static_graphql_call_content
            split: sum.splits)
    qed
  qed
qed

theorem variants_agree_witness:
  "proxy_check_passes sample_lib sample_env member_request
   \<and> loadToken stored_fs = Inr example_token \<and> truthy (opt_chain example_token ''access_token'')
   \<and> truthy (SHOP sample_env) \<and> truthy (ADMIN_TOKEN sample_env)
   \<and> static_build_draft_input (body_phone member_request) (body_product member_request)
         (body_customer member_request)
       = build_draft_input (body_phone member_request) (body_product member_request)
         (body_customer member_request)
   \<and> same_answer
         (fst (customization_request sample_lib sample_env net_user_error stored_fs member_request))
         (fst (static_customization_request sample_env net_user_error member_request))
   \<and> map content (snd (static_customization_request sample_env net_user_error member_request))
       = map content
           (fst (snd (customization_request sample_lib sample_env net_user_error stored_fs
              member_request)))"
proof -
  let ?fr = "Fetched True (Inr
     (JObj [(''data'', JObj [(''draftOrderCreate'',
        JObj [(''draftOrder'', JNull),
              (''userErrors'', JArr [JObj [(''field'', JNull), (''message'', JStr ''Phone is invalid'')]])])])]))"
  have n: "net_user_error = (\<lambda>c. ?fr)"
    by (simp add: net_user_error_def)
  have g: "proxy_check_passes sample_lib sample_env member_request"
    by (simp add: proxy_check_passes_def sample_env_def)
  have e: "truthy (SHOP sample_env)" "truthy (ADMIN_TOKEN sample_env)"
    by (simp_all add: SHOP_def ADMIN_TOKEN_def process_env_def sample_env_def)
  show ?thesis
    using g e stored_fs_token
      variants_agree [OF g stored_fs_token e, where fr = ?fr
        and phone = "body_phone member_request" and product = "body_product member_request"
        and customer = "body_customer member_request"]
    unfolding n [symmetric]
    by (auto split: prod.splits)
qed

section \<open>Properties of the OAuth callback\<close>

lemma saveToken_files:
  "saveToken t s = (x, s') \<Longrightarrow>
     (case x of Inl e \<Rightarrow> files s' = files s
      | Inr u \<Rightarrow> \<exists>c. JSON_stringify t = Some c \<and> files s' = (files s)(TOKEN_PATH \<mapsto> c))"
  by (auto simp: saveToken_def mkdirSync_def writeFileSync_def split: if_splits option.splits sum.splits prod.splits)

lemma save_exchanged_token_cases:
  assumes "save_exchanged_token shop tokenJson now s = (x, s')"
  shows "(case x of
            Inl e \<Rightarrow> files s' = files s
          | Inr r \<Rightarrow> r = res_send 200 installed_message
               \<and> saveToken (exchanged_token shop tokenJson now) s = (Inr (), s'))"
proof (cases "nullish tokenJson")
  case True
  with assms show ?thesis
    by (auto simp: save_exchanged_token_def dot_prop_def)
next
  case False
  obtain y s1 where sv: "saveToken (exchanged_token shop tokenJson now) s = (y, s1)"
    by (cases "saveToken (exchanged_token shop tokenJson now) s") auto
  from saveToken_files [OF sv] False assms sv show ?thesis
    by (cases y) (auto simp: save_exchanged_token_def dot_prop_def exchanged_token_def)
qed

lemma exchange_code_cases:
  assumes "exchange_code env net now s shop code = (x, calls, s')"
  shows "calls = [token_exchange_call env shop code]
     \<and> (case x of
          Inl e \<Rightarrow> files s' = files s
        | Inr r \<Rightarrow>
            (\<exists>tokenJson. net (token_exchange_call env shop code) = Fetched False (Inr tokenJson)
                \<and> r = exchange_failed tokenJson \<and> s' = s)
            \<or> (\<exists>tokenJson. net (token_exchange_call env shop code) = Fetched True (Inr tokenJson)
                \<and> r = res_send 200 installed_message
                \<and> saveToken (exchanged_token shop tokenJson now) s = (Inr (), s')))"
proof (cases "net (token_exchange_call env shop code)")
  case (Rejected e)
  with assms show ?thesis by (auto simp: exchange_code_def Let_def)
next
  case (Fetched ok parsed)
  show ?thesis
  proof (cases parsed)
    case (Inl e)
    with Fetched assms show ?thesis by (auto simp: exchange_code_def Let_def)
  next
    case (Inr tokenJson)
    show ?thesis
    proof (cases ok)
      case False
      with Fetched Inr assms show ?thesis
        by (auto simp: exchange_code_def Let_def exchange_failed_def)
    next
      case True
      obtain y s1 where sv: "save_exchanged_token shop tokenJson now s = (y, s1)"
        by (cases "save_exchanged_token shop tokenJson now s") auto
      from save_exchanged_token_cases [OF sv] True Fetched Inr assms sv show ?thesis
        by (cases y) (auto simp: exchange_code_def Let_def)
    qed
  qed
qed

lemma auth_callback_try_steps:
  "auth_callback_try L env net now s req =
     (if \<not> env_complete env then (Inr (res_send 500 ''Missing env vars for OAuth''), [], s)
      else case verifyHmac L (query req) (API_SECRET env) of
             Inl e \<Rightarrow> (Inl e, [], s)
           | Inr valid \<Rightarrow>
               if \<not> valid then (Inr (res_send 400 ''HMAC verification failed''), [], s)
               else if \<not> truthy (query_shop req) \<or> \<not> truthy (query_code req)
               then (Inr (res_send 400 ''Missing shop or code''), [], s)
               else exchange_code env net now s (query_shop req) (query_code req))"
  by (auto simp: auth_callback_try_def env_complete_def query_shop_def query_code_def Let_def
      split: sum.splits)

lemma auth_callback_200:
  assumes "auth_callback L env net now s req = (r, calls, s')" and "status r = 200"
  shows "env_complete env \<and> verifyHmac L (query req) (API_SECRET env) = Inr True
     \<and> truthy (query_shop req) \<and> truthy (query_code req)
     \<and> (\<exists>tokenJson.
          net (token_exchange_call env (query_shop req) (query_code req))
            = Fetched True (Inr tokenJson)
          \<and> saveToken (exchanged_token (query_shop req) tokenJson now) s = (Inr (), s'))"
proof -
  obtain x where t: "auth_callback_try L env net now s req = (x, calls, s')"
    and x: "x = Inr r"
    using assms
    by (cases "auth_callback_try L env net now s req")
      (auto simp: auth_callback_def split: sum.splits)
  have c: "env_complete env"
    using t x assms(2) by (auto simp: auth_callback_try_steps res_send_def split: if_splits)
  then obtain valid where v: "verifyHmac L (query req) (API_SECRET env) = Inr valid"
    using t x by (cases "verifyHmac L (query req) (API_SECRET env)")
      (auto simp: auth_callback_try_steps)
  have valid: "valid"
    using t x c v assms(2) by (auto simp: auth_callback_try_steps res_send_def split: if_splits)
  have sc: "truthy (query_shop req)" "truthy (query_code req)"
    using t x c v valid assms(2)
    by (auto simp: auth_callback_try_steps res_send_def split: if_splits)
  have e: "exchange_code env net now s (query_shop req) (query_code req) = (Inr r, calls, s')"
    using t x c v valid sc by (simp add: auth_callback_try_steps)
  from exchange_code_cases [OF e] assms(2) c v valid sc show ?thesis
    by (auto simp: exchange_failed_def)
qed

lemma auth_callback_not_200:
  assumes "auth_callback L env net now s req = (r, calls, s')" and "status r \<noteq> 200"
  shows "files s' = files s"
proof -
  obtain x where t: "auth_callback_try L env net now s req = (x, calls, s')"
    using assms(1)
    by (cases "auth_callback_try L env net now s req")
      (auto simp: auth_callback_def split: sum.splits)
  have r: "x = Inr r \<or> (\<exists>e. x = Inl e)"
    using assms(1) t by (cases x) (auto simp: auth_callback_def)
  show ?thesis
  proof (cases "env_complete env")
    case False
    with t show ?thesis by (simp add: auth_callback_try_steps)
  next
    case True
    show ?thesis
    proof (cases "verifyHmac L (query req) (API_SECRET env)")
      case (Inl e)
      with True t show ?thesis by (simp add: auth_callback_try_steps)
    next
      case (Inr valid)
      show ?thesis
      proof (cases "valid \<and> truthy (query_shop req) \<and> truthy (query_code req)")
        case False
        with True Inr t show ?thesis by (auto simp: auth_callback_try_steps split: if_splits)
      next
        case ok: True
        with True Inr t
        have e: "exchange_code env net now s (query_shop req) (query_code req) = (x, calls, s')"
          by (simp add: auth_callback_try_steps)
        from exchange_code_cases [OF e] r assms(2) show ?thesis
          by (auto simp: res_send_def)
      qed
    qed
  qed
qed

lemma auth_callback_installed:
  assumes "env_complete env" and "verifyHmac L (query req) (API_SECRET env) = Inr True"
    and "truthy (query_shop req)" and "truthy (query_code req)"
    and "net (token_exchange_call env (query_shop req) (query_code req))
           = Fetched True (Inr tokenJson)"
    and "\<not> nullish tokenJson" and "store_usable s"
  shows "\<exists>s'. auth_callback L env net now s req
            = (res_send 200 installed_message,
               [token_exchange_call env (query_shop req) (query_code req)], s')
         \<and> files s' = (files s)(TOKEN_PATH \<mapsto>
               JsonText (stringify_value (exchanged_token (query_shop req) tokenJson now)))
         \<and> loadToken s' = Inr (stringify_value (exchanged_token (query_shop req) tokenJson now))"
proof -
  let ?t = "exchanged_token (query_shop req) tokenJson now"
  let ?s' = "\<lparr>dirs = insert DATA_DIR (dirs s),
            files = (files s)(TOKEN_PATH \<mapsto> JsonText (stringify_value ?t))\<rparr>"
  have d: "?t \<noteq> JUndef" by (simp add: exchanged_token_def)
  have sv: "saveToken ?t s = (Inr (), ?s')"
    using d assms(7) by (rule saveToken_usable)
  have u: "store_usable ?s'"
    using assms(7) by (rule store_usable_saved)
  have l: "loadToken ?s' = Inr (stringify_value ?t)"
    using u by (intro loadToken_saved) (auto simp: store_usable_def)
  have "save_exchanged_token (query_shop req) tokenJson now s
      = (Inr (res_send 200 installed_message), ?s')"
    using assms(6) sv by (simp add: save_exchanged_token_def dot_prop_def exchanged_token_def)
  then have "auth_callback L env net now s req
            = (res_send 200 installed_message,
               [token_exchange_call env (query_shop req) (query_code req)], ?s')"
    using assms(1-5)
    by (simp add: auth_callback_def auth_callback_try_steps exchange_code_def Let_def)
  with l show ?thesis by (intro exI [of _ ?s']) simp
qed

lemma sample_env_complete: "env_complete sample_env"
  by (simp add: env_complete_def API_SECRET_def API_KEY_def HOST_def SHOP_def process_env_def
      sample_env_def)

lemma sample_secret: "API_SECRET sample_env = JStr ''secret''"
  by (simp add: API_SECRET_def process_env_def sample_env_def)

lemma install_request_verified:
  "verifyHmac sample_lib (query install_request) (API_SECRET sample_env) = Inr True"
  by (simp add: sample_secret verifyHmac_def install_request_def hmac_digest_def Buffer_from_def
      timingSafeEqual_def sample_lib_def Let_def)

lemma install_request_params:
  "query_shop install_request = JStr ''demo.myshopify.com''"
  "query_code install_request = JStr ''c0de''"
  by (simp_all add: query_shop_def query_code_def install_request_def)

text \<open>
  C4 as stated fails for a token exchange that is not ok and whose body is not JSON: the
  body is parsed before \<open>ok\<close> is tested, so the handler answers 500, not 400.
\<close>

theorem callback_counterexample:
  "net_error_page (token_exchange_call sample_env (query_shop install_request)
       (query_code install_request)) = Fetched False (Inl SyntaxError)
   \<and> auth_callback sample_lib sample_env net_error_page sample_now empty_fs install_request
       = (\<lparr>status = 500, sent = ServerErrorText SyntaxError\<rparr>,
          [token_exchange_call sample_env (JStr ''demo.myshopify.com'') (JStr ''c0de'')],
          empty_fs)"
  using sample_env_complete install_request_verified
  by (simp add: auth_callback_def auth_callback_try_steps install_request_params
      exchange_code_def net_error_page_def Let_def)

text \<open>
  C4, amended. The callback answers 500 when a required environment variable is missing,
  400 when \<open>verifyHmac\<close> returns false, 400 when shop or code is missing, and 400 when the
  token exchange is not ok and its body parsed, each time leaving the files as they were;
  when every step succeeds on a usable store it saves \<open>{shop, access_token, scope,
  created_at}\<close> and answers 200; status 200 is only sent after all steps succeeded and
  \<open>saveToken\<close> returned; and whenever the status is not 200 no file has changed.
\<close>

theorem callback_saves_iff_success:
  "(\<not> env_complete env \<longrightarrow>
      auth_callback L env net now s req = (res_send 500 ''Missing env vars for OAuth'', [], s))
   \<and> (env_complete env \<and> verifyHmac L (query req) (API_SECRET env) = Inr False \<longrightarrow>
      auth_callback L env net now s req = (res_send 400 ''HMAC verification failed'', [], s))
   \<and> (env_complete env \<and> verifyHmac L (query req) (API_SECRET env) = Inr True
        \<and> (\<not> truthy (query_shop req) \<or> \<not> truthy (query_code req)) \<longrightarrow>
      auth_callback L env net now s req = (res_send 400 ''Missing shop or code'', [], s))
   \<and> (env_complete env \<and> verifyHmac L (query req) (API_SECRET env) = Inr True
        \<and> truthy (query_shop req) \<and> truthy (query_code req)
        \<and> net (token_exchange_call env (query_shop req) (query_code req))
            = Fetched False (Inr tokenJson) \<longrightarrow>
      auth_callback L env net now s req
        = (exchange_failed tokenJson,
           [token_exchange_call env (query_shop req) (query_code req)], s))
   \<and> (env_complete env \<and> verifyHmac L (query req) (API_SECRET env) = Inr True
        \<and> truthy (query_shop req) \<and> truthy (query_code req)
        \<and> net (token_exchange_call env (query_shop req) (query_code req))
            = Fetched True (Inr tokenJson)
        \<and> \<not> nullish tokenJson \<and> store_usable s \<longrightarrow>
      (\<exists>s'. auth_callback L env net now s req
            = (res_send 200 installed_message,
               [token_exchange_call env (query_shop req) (query_code req)], s')
         \<and> files s' = (files s)(TOKEN_PATH \<mapsto>
               JsonText (stringify_value (exchanged_token (query_shop req) tokenJson now)))
         \<and> loadToken s' = Inr (stringify_value (exchanged_token (query_shop req) tokenJson now))))
   \<and> (\<forall>r calls s'. auth_callback L env net now s req = (r, calls, s') \<longrightarrow>
        (status r = 200 \<longrightarrow>
           env_complete env \<and> verifyHmac L (query req) (API_SECRET env) = Inr True
           \<and> truthy (query_shop req) \<and> truthy (query_code req)
           \<and> (\<exists>granted.
                net (token_exchange_call env (query_shop req) (query_code req))
                  = Fetched True (Inr granted)
                \<and> saveToken (exchanged_token (query_shop req) granted now) s = (Inr (), s')))
        \<and> (status r \<noteq> 200 \<longrightarrow> files s' = files s))"
proof (intro conjI impI allI)
  assume "\<not> env_complete env"
  then show "auth_callback L env net now s req
      = (res_send 500 ''Missing env vars for OAuth'', [], s)"
    by (simp add: auth_callback_def auth_callback_try_steps)
next
  assume "env_complete env \<and> verifyHmac L (query req) (API_SECRET env) = Inr False"
  then show "auth_callback L env net now s req
      = (res_send 400 ''HMAC verification failed'', [], s)"
    by (simp add: auth_callback_def auth_callback_try_steps)
next
  assume "env_complete env \<and> verifyHmac L (query req) (API_SECRET env) = Inr True
        \<and> (\<not> truthy (query_shop req) \<or> \<not> truthy (query_code req))"
  then show "auth_callback L env net now s req = (res_send 400 ''Missing shop or code'', [], s)"
    by (auto simp: auth_callback_def auth_callback_try_steps)
next
  assume "env_complete env \<and> verifyHmac L (query req) (API_SECRET env) = Inr True
        \<and> truthy (query_shop req) \<and> truthy (query_code req)
        \<and> net (token_exchange_call env (query_shop req) (query_code req))
            = Fetched False (Inr tokenJson)"
  then show "auth_callback L env net now s req
        = (exchange_failed tokenJson,
           [token_exchange_call env (query_shop req) (query_code req)], s)"
    by (simp add: auth_callback_def auth_callback_try_steps exchange_code_def Let_def
        exchange_failed_def)
next
  assume "env_complete env \<and> verifyHmac L (query req) (API_SECRET env) = Inr True
        \<and> truthy (query_shop req) \<and> truthy (query_code req)
        \<and> net (token_exchange_call env (query_shop req) (query_code req))
            = Fetched True (Inr tokenJson)
        \<and> \<not> nullish tokenJson \<and> store_usable s"
  then show "\<exists>s'. auth_callback L env net now s req
            = (res_send 200 installed_message,
               [token_exchange_call env (query_shop req) (query_code req)], s')
         \<and> files s' = (files s)(TOKEN_PATH \<mapsto>
               JsonText (stringify_value (exchanged_token (query_shop req) tokenJson now)))
         \<and> loadToken s' = Inr (stringify_value (exchanged_token (query_shop req) tokenJson now))"
    using auth_callback_installed by blast
next
  fix r calls s'
  assume a: "auth_callback L env net now s req = (r, calls, s')"
  {
    assume "status r = 200"
    with a show "env_complete env" "verifyHmac L (query req) (API_SECRET env) = Inr True"
      "truthy (query_shop req)" "truthy (query_code req)"
      "\<exists>granted.
          net (token_exchange_call env (query_shop req) (query_code req))
            = Fetched True (Inr granted)
          \<and> saveToken (exchanged_token (query_shop req) granted now) s = (Inr (), s')"
      using auth_callback_200 by blast+
  }
  {
    assume "status r \<noteq> 200"
    with a show "files s' = files s" by (rule auth_callback_not_200)
  }
qed

theorem callback_saves_iff_success_witness:
  "env_complete sample_env \<and> \<not> env_complete Map.empty
   \<and> verifyHmac sample_lib (query install_request) (API_SECRET sample_env) = Inr True
   \<and> verifyHmac sample_lib [] (API_SECRET sample_env) = Inr False
   \<and> store_usable empty_fs
   \<and> auth_callback sample_lib Map.empty net_token_granted sample_now empty_fs install_request
       = (res_send 500 ''Missing env vars for OAuth'', [], empty_fs)
   \<and> auth_callback sample_lib sample_env net_token_granted sample_now empty_fs
         \<lparr>query = [], body = JUndef\<rparr>
       = (res_send 400 ''HMAC verification failed'', [], empty_fs)
   \<and> auth_callback sample_lib sample_env net_token_granted sample_now empty_fs
         (install_request\<lparr>query := [(''hmac'', JStr (replicate 64 CHR ''0''))]\<rparr>)
       = (res_send 400 ''Missing shop or code'', [], empty_fs)
   \<and> auth_callback sample_lib sample_env net_denied sample_now empty_fs install_request
       = (exchange_failed (JObj [(''error'', JStr ''invalid_request'')]),
          [token_exchange_call sample_env (JStr ''demo.myshopify.com'') (JStr ''c0de'')], empty_fs)
   \<and> (\<exists>s'. auth_callback sample_lib sample_env net_token_granted sample_now empty_fs
               install_request
            = (res_send 200 installed_message,
               [token_exchange_call sample_env (JStr ''demo.myshopify.com'') (JStr ''c0de'')], s')
          \<and> loadToken s' = Inr (JObj [(''shop'', JStr ''demo.myshopify.com''),
               (''access_token'', JStr ''shpat_1''), (''scope'', JStr ''write_draft_orders''),
               (''created_at'', JStr sample_now)]))
   \<and> files (snd (snd (auth_callback sample_lib sample_env net_denied sample_now empty_fs
         install_request))) = files empty_fs"
proof -
  let ?call = "token_exchange_call sample_env (query_shop install_request)
      (query_code install_request)"
  let ?granted = "JObj [(''access_token'', JStr ''shpat_1''), (''scope'', JStr ''write_draft_orders'')]"
  have ne: "\<not> env_complete Map.empty"
    by (simp add: env_complete_def API_SECRET_def process_env_def)
  have u: "store_usable empty_fs"
    by (simp add: store_usable_def empty_fs_def is_dir_def TOKEN_PATH_def DATA_DIR_def)
  have h0: "verifyHmac sample_lib (query \<lparr>query = [], body = JUndef\<rparr>) (API_SECRET sample_env)
      = Inr False"
    by (simp add: verifyHmac_def)
  have h1: "verifyHmac sample_lib
      (query (install_request\<lparr>query := [(''hmac'', JStr (replicate 64 CHR ''0''))]\<rparr>))
      (API_SECRET sample_env) = Inr True"
    by (simp add: sample_secret verifyHmac_def hmac_digest_def Buffer_from_def
        timingSafeEqual_def sample_lib_def Let_def)
  have p1: "\<not> truthy (query_shop (install_request\<lparr>query := [(''hmac'', JStr (replicate 64 CHR ''0''))]\<rparr>))"
    by (simp add: query_shop_def)
  have t: "truthy (query_shop install_request)" "truthy (query_code install_request)"
    by (simp_all add: install_request_params)
  have nd: "net_denied ?call = Fetched False (Inr (JObj [(''error'', JStr ''invalid_request'')]))"
    by (simp add: net_denied_def)
  have ng: "net_token_granted ?call = Fetched True (Inr ?granted)" "\<not> nullish ?granted"
    by (simp_all add: net_token_granted_def)
  have tok: "stringify_value (exchanged_token (query_shop install_request) ?granted sample_now)
      = JObj [(''shop'', JStr ''demo.myshopify.com''),
               (''access_token'', JStr ''shpat_1''), (''scope'', JStr ''write_draft_orders''),
               (''created_at'', JStr sample_now)]"
    by (simp add: exchanged_token_def install_request_params)
  note w1 = callback_saves_iff_success [where env = Map.empty and L = sample_lib
      and net = net_token_granted and now = sample_now and s = empty_fs and req = install_request]
  note w2 = callback_saves_iff_success [where env = sample_env and L = sample_lib
      and net = net_token_granted and now = sample_now and s = empty_fs
      and req = "\<lparr>query = [], body = JUndef\<rparr>"]
  note w3 = callback_saves_iff_success [where env = sample_env and L = sample_lib
      and net = net_token_granted and now = sample_now and s = empty_fs
      and req = "install_request\<lparr>query := [(''hmac'', JStr (replicate 64 CHR ''0''))]\<rparr>"]
  note w4 = callback_saves_iff_success [where env = sample_env and L = sample_lib
      and net = net_denied and now = sample_now and s = empty_fs and req = install_request
      and tokenJson = "JObj [(''error'', JStr ''invalid_request'')]"]
  note w5 = callback_saves_iff_success [where env = sample_env and L = sample_lib
      and net = net_token_granted and now = sample_now and s = empty_fs and req = install_request
      and tokenJson = ?granted]
  have a1: "auth_callback sample_lib Map.empty net_token_granted sample_now empty_fs
      install_request = (res_send 500 ''Missing env vars for OAuth'', [], empty_fs)"
    using w1 ne by blast
  have a2: "auth_callback sample_lib sample_env net_token_granted sample_now empty_fs
         \<lparr>query = [], body = JUndef\<rparr>
       = (res_send 400 ''HMAC verification failed'', [], empty_fs)"
    using w2 sample_env_complete h0 by blast
  have a3: "auth_callback sample_lib sample_env net_token_granted sample_now empty_fs
         (install_request\<lparr>query := [(''hmac'', JStr (replicate 64 CHR ''0''))]\<rparr>)
       = (res_send 400 ''Missing shop or code'', [], empty_fs)"
    using w3 sample_env_complete h1 p1 by blast
  have a4: "auth_callback sample_lib sample_env net_denied sample_now empty_fs install_request
       = (exchange_failed (JObj [(''error'', JStr ''invalid_request'')]), [?call], empty_fs)"
    using w4 sample_env_complete install_request_verified t nd by blast
  have a5: "\<exists>s'. auth_callback sample_lib sample_env net_token_granted sample_now empty_fs
               install_request
            = (res_send 200 installed_message, [?call], s')
          \<and> loadToken s' = Inr (stringify_value
               (exchanged_token (query_shop install_request) ?granted sample_now))"
    using w5 sample_env_complete install_request_verified t ng u by blast
  have a5': "\<exists>s'. auth_callback sample_lib sample_env net_token_granted sample_now empty_fs
               install_request
            = (res_send 200 installed_message, [?call], s')
          \<and> loadToken s' = Inr (JObj [(''shop'', JStr ''demo.myshopify.com''),
               (''access_token'', JStr ''shpat_1''), (''scope'', JStr ''write_draft_orders''),
               (''created_at'', JStr sample_now)])"
    using a5 by (simp only: tok)
  have a6: "files (snd (snd (auth_callback sample_lib sample_env net_denied sample_now empty_fs
         install_request))) = files empty_fs"
    using w4 a4 by (auto simp: exchange_failed_def)
  show ?thesis
    using sample_env_complete ne install_request_verified h0 u a1 a2 a3 a4 a5' a6
    by (simp add: install_request_params)
qed

lemma verifyHmac_falsy:
  "\<not> truthy (query_hmac req) \<Longrightarrow> verifyHmac L (query req) secret = Inr False"
  by (simp add: verifyHmac_def query_hmac_def Let_def)

lemma verifyHmac_string:
  assumes "digest_length_64 L" and "query_hmac req = JStr h" and "h \<noteq> []"
  shows "verifyHmac L (query req) (JStr key) =
     (if length h = 64
      then Inr (hmac_sha256_hex L key
             (join ''&''
               (map (\<lambda>k. k @ ''='' @
                      (case get_prop (JObj (filter (\<lambda>kv. fst kv \<noteq> ''hmac'') (query req))) k of
                         JArr xs \<Rightarrow> join '','' (elems_to_string xs)
                       | v \<Rightarrow> to_string v))
                 (sort (object_keys (filter (\<lambda>kv. fst kv \<noteq> ''hmac'') (query req))))))
             = h)
      else Inl RangeError)"
  using assms
  by (simp add: verifyHmac_def query_hmac_def Let_def hmac_digest_def Buffer_from_def
      timingSafeEqual_def digest_length_64_def)

lemma env_complete_secret: "env_complete env \<Longrightarrow> \<exists>key. API_SECRET env = JStr key"
  by (auto simp: env_complete_def API_SECRET_def process_env_def split: option.splits)

lemma auth_callback_throws:
  assumes "env_complete env" and "verifyHmac L (query req) (API_SECRET env) = Inl e"
  shows "auth_callback L env net now s req = (\<lparr>status = 500, sent = ServerErrorText e\<rparr>, [], s)"
  using assms by (simp add: auth_callback_def auth_callback_try_steps)

lemma sample_lib_digest: "digest_length_64 sample_lib"
  by (simp add: digest_length_64_def sample_lib_def)

text \<open>
  C9 as stated fails for an empty \<open>hmac\<close>: its length is not 64, yet \<open>verifyHmac\<close> returns
  false without comparing, and the callback answers 400.
\<close>

theorem verifyHmac_partial_counterexample:
  "query_hmac empty_hmac_request = JStr [] \<and> length ([] :: string) \<noteq> 64
   \<and> verifyHmac sample_lib (query empty_hmac_request) (API_SECRET sample_env) = Inr False
   \<and> auth_callback sample_lib sample_env net_token_granted sample_now empty_fs empty_hmac_request
       = (res_send 400 ''HMAC verification failed'', [], empty_fs)"
proof -
  have h: "query_hmac empty_hmac_request = JStr []"
    by (simp add: query_hmac_def empty_hmac_request_def)
  then have v: "verifyHmac sample_lib (query empty_hmac_request) (API_SECRET sample_env) = Inr False"
    by (simp add: verifyHmac_falsy)
  with sample_env_complete h show ?thesis
    by (simp add: auth_callback_def auth_callback_try_steps)
qed

text \<open>
  C9, amended. With digests of 64 characters: \<open>verifyHmac\<close> returns false when \<open>hmac\<close> is
  missing or empty; for a non-empty string \<open>hmac\<close> it returns a boolean exactly when the
  length is 64, and otherwise \<open>timingSafeEqual\<close> throws, so that the callback (with its
  environment variables set) answers 500 with the server error, makes no call and saves no
  token.
\<close>

theorem verifyHmac_partial:
  assumes "digest_length_64 L"
  shows "(\<not> truthy (query_hmac req) \<longrightarrow> verifyHmac L (query req) (JStr key) = Inr False)
       \<and> (query_hmac req = JStr h \<and> h \<noteq> [] \<longrightarrow>
            ((\<exists>b. verifyHmac L (query req) (JStr key) = Inr b) \<longleftrightarrow> length h = 64)
            \<and> (length h \<noteq> 64 \<longrightarrow>
                 verifyHmac L (query req) (JStr key) = Inl RangeError
                 \<and> (env_complete env \<longrightarrow>
                      auth_callback L env net now s req
                        = (\<lparr>status = 500, sent = ServerErrorText RangeError\<rparr>, [], s))))"
proof (intro conjI impI)
  assume "\<not> truthy (query_hmac req)"
  then show "verifyHmac L (query req) (JStr key) = Inr False"
    by (rule verifyHmac_falsy)
next
  assume a: "query_hmac req = JStr h \<and> h \<noteq> []"
  then show "(\<exists>b. verifyHmac L (query req) (JStr key) = Inr b) \<longleftrightarrow> length h = 64"
    using assms by (simp add: verifyHmac_string)
next
  assume a: "query_hmac req = JStr h \<and> h \<noteq> []" and n: "length h \<noteq> 64"
  then show "verifyHmac L (query req) (JStr key) = Inl RangeError"
    using assms by (simp add: verifyHmac_string)
next
  assume a: "query_hmac req = JStr h \<and> h \<noteq> []" and n: "length h \<noteq> 64"
    and c: "env_complete env"
  from env_complete_secret [OF c] obtain k where k: "API_SECRET env = JStr k" by blast
  have "verifyHmac L (query req) (API_SECRET env) = Inl RangeError"
    using assms a n by (simp add: k verifyHmac_string)
  with c show "auth_callback L env net now s req
      = (\<lparr>status = 500, sent = ServerErrorText RangeError\<rparr>, [], s)"
    by (rule auth_callback_throws)
qed

theorem verifyHmac_partial_witness:
  "digest_length_64 sample_lib
   \<and> \<not> truthy (query_hmac empty_hmac_request)
   \<and> verifyHmac sample_lib (query empty_hmac_request) (JStr ''secret'') = Inr False
   \<and> query_hmac short_hmac_request = JStr ''abc'' \<and> length ''abc'' \<noteq> 64
   \<and> env_complete sample_env
   \<and> verifyHmac sample_lib (query short_hmac_request) (JStr ''secret'') = Inl RangeError
   \<and> auth_callback sample_lib sample_env net_token_granted sample_now empty_fs short_hmac_request
       = (\<lparr>status = 500, sent = ServerErrorText RangeError\<rparr>, [], empty_fs)
   \<and> query_hmac install_request = JStr (replicate 64 CHR ''0'')
   \<and> (\<exists>b. verifyHmac sample_lib (query install_request) (JStr ''secret'') = Inr b)"
proof -
  have e: "\<not> truthy (query_hmac empty_hmac_request)"
    by (simp add: query_hmac_def empty_hmac_request_def)
  have s: "query_hmac short_hmac_request = JStr ''abc'' \<and> ''abc'' \<noteq> []"
    by (simp add: query_hmac_def short_hmac_request_def)
  have i: "query_hmac install_request = JStr (replicate 64 CHR ''0'')
      \<and> replicate 64 CHR ''0'' \<noteq> []"
    by (simp add: query_hmac_def install_request_def)
  note w = verifyHmac_partial [OF sample_lib_digest, where key = "''secret''"]
  have "verifyHmac sample_lib (query empty_hmac_request) (JStr ''secret'') = Inr False"
    using w [where req = empty_hmac_request] e by blast
  moreover have "verifyHmac sample_lib (query short_hmac_request) (JStr ''secret'') = Inl RangeError"
    "auth_callback sample_lib sample_env net_token_granted sample_now empty_fs short_hmac_request
       = (\<lparr>status = 500, sent = ServerErrorText RangeError\<rparr>, [], empty_fs)"
    using w [where req = short_hmac_request and h = "''abc''" and env = sample_env
        and net = net_token_granted and now = sample_now and s = empty_fs]
      s sample_env_complete by simp_all
  moreover have "\<exists>b. verifyHmac sample_lib (query install_request) (JStr ''secret'') = Inr b"
    using w [where req = install_request and h = "replicate 64 CHR ''0''"] i by simp
  ultimately show ?thesis
    using e s i sample_lib_digest sample_env_complete by simp
qed

end
